theory Spec2Isabelle
  imports Complex_Main
begin

section \<open>The device base class of the daemon (hardware/device_base.py)\<close>

text \<open>
  The theory embeds the class \<^verbatim>\<open>RazerDevice\<close>. An instance is a record of its
  attributes, the constants a subclass fixes are a second record, every method takes the
  state and returns the new one, and every exception the source can raise is a value on
  the left of a sum. A leading underscore of an attribute name is dropped
  (\<^verbatim>\<open>_is_closed\<close> is \<open>is_closed\<close>, \<^verbatim>\<open>_serial\<close> is \<open>serial_cached\<close>).
\<close>

subsection \<open>Values, errors, the zone dictionary\<close>

datatype error =
  IndexError | KeyError | TypeError | ValueError | FileNotFoundError | PermissionError

text \<open>Sequencing: an exception ends the computation and is its result.\<close>

definition bind :: "error + 'a \<Rightarrow> ('a \<Rightarrow> error + 'b) \<Rightarrow> error + 'b" where
  "bind r f = (case r of Inl e \<Rightarrow> Inl e | Inr x \<Rightarrow> f x)"

text \<open>The values the source passes to setters and puts into observer messages.\<close>

datatype pyval = PyBool bool | PyInt int | PyFloat real | PyStr string | PySelf

text \<open>
  One entry of \<^verbatim>\<open>self.zone\<close>, with the seven keys the constructor gives every zone
  and the types it gives them. \<open>other\<close> holds any further key a caller stores.
\<close>

record zone_rec =
  present :: bool
  active :: bool
  brightness :: real
  effect :: string
  colors :: "int list"
  speed :: int
  wave_dir :: int
  other :: "(string \<times> pyval) list"

text \<open>A key of a zone dictionary together with the value stored under it.\<close>

datatype field =
  Present bool | Active bool | Brightness real | Effect string | Colors "int list"
  | Speed int | Wave_dir int | Other string pyval

fun field_key :: "field \<Rightarrow> string" where
  "field_key (Present b) = ''present''"
| "field_key (Active b) = ''active''"
| "field_key (Brightness b) = ''brightness''"
| "field_key (Effect e) = ''effect''"
| "field_key (Colors cs) = ''colors''"
| "field_key (Speed n) = ''speed''"
| "field_key (Wave_dir n) = ''wave_dir''"
| "field_key (Other k v) = k"

fun zone_put :: "field \<Rightarrow> zone_rec \<Rightarrow> zone_rec" where
  "zone_put (Present b) z = z\<lparr>present := b\<rparr>"
| "zone_put (Active b) z = z\<lparr>active := b\<rparr>"
| "zone_put (Brightness b) z = z\<lparr>brightness := b\<rparr>"
| "zone_put (Effect e) z = z\<lparr>effect := e\<rparr>"
| "zone_put (Colors cs) z = z\<lparr>colors := cs\<rparr>"
| "zone_put (Speed n) z = z\<lparr>speed := n\<rparr>"
| "zone_put (Wave_dir n) z = z\<lparr>wave_dir := n\<rparr>"
| "zone_put (Other k v) z = z\<lparr>other := (k, v) # filter (\<lambda>p. fst p \<noteq> k) (other z)\<rparr>"

text \<open>
  \<^verbatim>\<open>self.zone\<close> maps a name to a zone dictionary; \<^verbatim>\<open>set_persistence\<close> with no zone
  stores a bare value under a top-level key, which is the second constructor.
\<close>

datatype zone_entry = Zone zone_rec | Raw field

text \<open>
  Modelled from the spec: what an operation of the RPC surface (a method added from
  \<^verbatim>\<open>dbus_methods\<close>, whose body is not in this file) does to the device object when it
  is called. The spec has zone state mutated only through the persistence-setter
  contract and broadcast through the notification bus, so an operation is the list of
  the calls it makes back into the device, \<^verbatim>\<open>self.set_persistence(zone, key, value)\<close>
  and \<^verbatim>\<open>self.send_effect_event(name, *args)\<close>, as a function of its arguments. Its
  write to the driver's control file is the entry the call leaves in \<open>calls\<close>. Its
  parameters are positional and have no defaults, so \<open>arity\<close> is what
  \<^verbatim>\<open>get_num_arguments\<close> returns for it and the number of arguments a call needs.
\<close>

datatype action = Persist string field | Event string "pyval list"

record operation =
  arity :: nat
  script :: "pyval list \<Rightarrow> action list"

datatype recipient = To_parent nat | To_observer nat

datatype ctrl_file = Absent | Unwritable | File "nat list"

text \<open>The attributes of an instance, and the world it acts on.\<close>

record device =
  zone :: "string \<rightharpoonup> zone_entry"
  dpi :: "int \<times> int"
  poll_rate :: int
  serial_cached :: "string option"
  observer_list :: "nat list"
  parent :: "nat option"
  effect_sync_propagate_up :: bool
  disable_notifications :: bool
  disable_persistence :: bool
  is_closed :: bool
  battery_manager :: "bool option"
  persistence_changed :: bool
  calls :: "(string \<times> pyval list) list"
  delivered :: "(recipient \<times> pyval list) list"
  device_mode_file :: ctrl_file
  hw_dpi :: "int \<times> int"

text \<open>
  \<open>observer_list\<close> and \<open>parent\<close> hold the identities of the observer objects;
  \<open>delivered\<close> is the sequence of \<^verbatim>\<open>notify\<close> and \<^verbatim>\<open>notify_parent\<close> calls made on
  them, oldest first. \<open>calls\<close> is the sequence of RPC operations invoked, with their
  arguments. \<open>battery_manager\<close> is \<open>None\<close> or \<open>Some closed\<close>. \<open>device_mode_file\<close> is the
  driver's \<^verbatim>\<open>device_mode\<close> control file and \<open>hw_dpi\<close> what \<^verbatim>\<open>getDPI\<close> reads from
  the hardware.
\<close>

text \<open>The class attributes a subclass defines, and the attributes \<^verbatim>\<open>getattr\<close> finds.\<close>

record device_class =
  METHODS :: "string list"
  USB_VID :: int
  USB_PID :: int
  DPI_MAX :: "int option"
  POLL_RATES :: "int list option"
  DRIVER_MODE :: bool
  attrs :: "string \<rightharpoonup> operation"

definition ZONES :: "string list" where
  "ZONES = [''backlight'', ''logo'', ''scroll'', ''left'', ''right'', ''charging'',
     ''fast_charging'', ''fully_charged'', ''channel1'', ''channel2'', ''channel3'',
     ''channel4'', ''channel5'', ''channel6'']"

definition default_colors :: "int list" where
  "default_colors = [0, 255, 0, 0, 255, 255, 0, 0, 255]"

subsection \<open>Observers\<close>

definition register_observer :: "nat \<Rightarrow> device \<Rightarrow> device" where
  "register_observer observer s =
     (if observer \<notin> set (observer_list s)
      then s\<lparr>observer_list := observer_list s @ [observer]\<rparr> else s)"

definition register_parent :: "nat \<Rightarrow> device \<Rightarrow> device" where
  "register_parent p s = s\<lparr>parent := Some p\<rparr>"

definition remove_observer :: "nat \<Rightarrow> device \<Rightarrow> device" where
  "remove_observer observer s = s\<lparr>observer_list := remove1 observer (observer_list s)\<rparr>"

definition notify_observers :: "pyval list \<Rightarrow> device \<Rightarrow> device" where
  "notify_observers msg s =
     (if \<not> disable_notifications s then
        (let s1 = (if effect_sync_propagate_up s \<and> parent s \<noteq> None
                   then s\<lparr>delivered := delivered s @ [(To_parent (the (parent s)), msg)]\<rparr>
                   else s)
         in s1\<lparr>delivered := delivered s1 @ map (\<lambda>ob. (To_observer ob, msg)) (observer_list s1)\<rparr>)
      else s)"

definition send_effect_event :: "string \<Rightarrow> pyval list \<Rightarrow> device \<Rightarrow> device" where
  "send_effect_event effect_name args s =
     notify_observers ([PyStr ''effect'', PySelf, PyStr effect_name] @ args) s"

subsection \<open>The persistence setter and calls of RPC operations\<close>

text \<open>The zone argument \<^verbatim>\<open>None\<close> or \<^verbatim>\<open>""\<close> is the empty string: both are false.\<close>

definition set_persistence :: "string \<Rightarrow> field \<Rightarrow> device \<Rightarrow> error + device" where
  "set_persistence zn kv s =
     (if disable_persistence s then Inr s
      else let s1 = s\<lparr>persistence_changed := True\<rparr> in
        if zn \<noteq> [] then
          (case zone s1 zn of
             None \<Rightarrow> Inl KeyError
           | Some (Raw v) \<Rightarrow> Inl TypeError
           | Some (Zone z) \<Rightarrow> Inr (s1\<lparr>zone := (zone s1)(zn \<mapsto> Zone (zone_put kv z))\<rparr>))
        else Inr (s1\<lparr>zone := (zone s1)(field_key kv \<mapsto> Raw kv)\<rparr>))"

fun run_script :: "action list \<Rightarrow> device \<Rightarrow> error + device" where
  "run_script [] s = Inr s"
| "run_script (Persist zn kv # as) s =
     (case set_persistence zn kv s of Inl e \<Rightarrow> Inl e | Inr s1 \<Rightarrow> run_script as s1)"
| "run_script (Event name args # as) s = run_script as (send_effect_event name args s)"

text \<open>
  Calling the attribute found under \<open>name\<close>: Python raises TypeError when the number of
  arguments is not the number of parameters.
\<close>

definition invoke :: "operation \<Rightarrow> string \<Rightarrow> pyval list \<Rightarrow> device \<Rightarrow> error + device" where
  "invoke m name args s =
     (if length args \<noteq> arity m then Inl TypeError
      else run_script (script m args) (s\<lparr>calls := calls s @ [(name, args)]\<rparr>))"

subsection \<open>Composing setter names\<close>

text \<open>
  Characters are the 8-bit characters of HOL, the code points below 256.
  \<^verbatim>\<open>str.upper\<close> of a one-character string: the letters a to z, the letters
  \<open>0xE0\<close> to \<open>0xFE\<close> other than the division sign \<open>0xF7\<close>, which move down by
  \<open>0x20\<close>, and the sharp s \<open>0xDF\<close>, which becomes \<^verbatim>\<open>SS\<close>. The upper-case forms of
  \<open>0xB5\<close> (U+039C) and \<open>0xFF\<close> (U+0178) are not characters of HOL: \<open>upper\<close> leaves
  these two as they are, and a name that begins with one of them is outside the model.
\<close>

definition is_lower_az :: "char \<Rightarrow> bool" where
  "is_lower_az ch = (ch \<in> set ''abcdefghijklmnopqrstuvwxyz'')"

definition upper :: "char \<Rightarrow> string" where
  "upper ch =
     (if ch = CHR 0xDF then ''SS''
      else case map_of
          (zip (''abcdefghijklmnopqrstuvwxyz'' @
                [CHR 0xE0, CHR 0xE1, CHR 0xE2, CHR 0xE3, CHR 0xE4, CHR 0xE5,
                 CHR 0xE6, CHR 0xE7, CHR 0xE8, CHR 0xE9, CHR 0xEA, CHR 0xEB,
                 CHR 0xEC, CHR 0xED, CHR 0xEE, CHR 0xEF, CHR 0xF0, CHR 0xF1,
                 CHR 0xF2, CHR 0xF3, CHR 0xF4, CHR 0xF5, CHR 0xF6, CHR 0xF8,
                 CHR 0xF9, CHR 0xFA, CHR 0xFB, CHR 0xFC, CHR 0xFD, CHR 0xFE])
               (''ABCDEFGHIJKLMNOPQRSTUVWXYZ'' @
                [CHR 0xC0, CHR 0xC1, CHR 0xC2, CHR 0xC3, CHR 0xC4, CHR 0xC5,
                 CHR 0xC6, CHR 0xC7, CHR 0xC8, CHR 0xC9, CHR 0xCA, CHR 0xCB,
                 CHR 0xCC, CHR 0xCD, CHR 0xCE, CHR 0xCF, CHR 0xD0, CHR 0xD1,
                 CHR 0xD2, CHR 0xD3, CHR 0xD4, CHR 0xD5, CHR 0xD6, CHR 0xD8,
                 CHR 0xD9, CHR 0xDA, CHR 0xDB, CHR 0xDC, CHR 0xDD, CHR 0xDE])) ch of
        None \<Rightarrow> [ch] | Some u \<Rightarrow> [u])"

definition capitalize_first_char :: "string \<Rightarrow> error + string" where
  "capitalize_first_char str =
     (case str of [] \<Rightarrow> Inl IndexError | ch # rest \<Rightarrow> Inr (upper ch @ rest))"

text \<open>
  \<^verbatim>\<open>re.sub(r'[_]+(?P<first>[a-z])', lambda m: m.group('first').upper(), string)\<close>:
  a run of underscores followed by a lower-case letter is replaced by the upper-case
  letter; any other underscore stays.
\<close>

function handle_underscores :: "string \<Rightarrow> string" where
  "handle_underscores [] = []"
| "handle_underscores (ch # rest) =
     (if ch = CHR ''_'' then
        (case dropWhile (\<lambda>x. x = CHR ''_'') rest of
           [] \<Rightarrow> ch # handle_underscores rest
         | d # ds \<Rightarrow> if is_lower_az d then upper d @ handle_underscores ds
                     else ch # handle_underscores rest)
      else ch # handle_underscores rest)"
  by pat_completeness auto
termination
proof (relation "measure length")
  fix ch :: char and rest d ds
  assume "dropWhile (\<lambda>x. x = CHR ''_'') rest = d # ds"
  then have "length (d # ds) \<le> length rest"
    by (metis length_dropWhile_le)
  then show "(ds, ch # rest) \<in> measure length" by simp
qed auto

definition effect_func_name :: "string \<Rightarrow> string \<Rightarrow> error + string" where
  "effect_func_name i eff =
     (if i = ''backlight'' then
        bind (capitalize_first_char eff) (\<lambda>e. Inr (''set'' @ e))
      else
        bind (capitalize_first_char i) (\<lambda>z.
        bind (capitalize_first_char eff) (\<lambda>e.
          Inr (''set'' @ handle_underscores z @ e))))"

definition spectrum_func_name :: "string \<Rightarrow> error + string" where
  "spectrum_func_name i =
     (if i = ''backlight'' then Inr ''setSpectrum''
      else bind (capitalize_first_char i) (\<lambda>z. Inr (''set'' @ z @ ''Spectrum'')))"

subsection \<open>Restoring effects\<close>

definition zone_get :: "device \<Rightarrow> string \<Rightarrow> error + zone_rec" where
  "zone_get s i =
     (case zone s i of None \<Rightarrow> Inl KeyError
      | Some (Raw v) \<Rightarrow> Inl TypeError
      | Some (Zone z) \<Rightarrow> Inr z)"

text \<open>\<^verbatim>\<open>colors[k]\<close> for each \<open>k\<close> of the list, left to right.\<close>

fun color_args :: "int list \<Rightarrow> nat list \<Rightarrow> error + pyval list" where
  "color_args cs [] = Inr []"
| "color_args cs (k # ks) =
     (if k < length cs then bind (color_args cs ks) (\<lambda>vs. Inr (PyInt (cs ! k) # vs))
      else Inl IndexError)"

text \<open>The chain on \<^verbatim>\<open>get_num_arguments(effect_func)\<close>; a branch that only logs returns.\<close>

definition dispatch :: "operation \<Rightarrow> string \<Rightarrow> zone_rec \<Rightarrow> device \<Rightarrow> error + device" where
  "dispatch m fname z s =
     (let eff = effect z; cs = colors z; sp = speed z; wd = wave_dir z in
      if arity m = 0 then invoke m fname [] s
      else if arity m = 1 then
        (if eff = ''starlightRandom'' then invoke m fname [PyInt sp] s
         else if eff = ''wave'' then invoke m fname [PyInt wd] s
         else if eff = ''wheel'' then invoke m fname [PyInt wd] s
         else if eff = ''rippleRandomColour'' then Inr s
         else Inr s)
      else if arity m = 3 then
        bind (color_args cs [0, 1, 2]) (\<lambda>a. invoke m fname a s)
      else if arity m = 4 then
        (if eff = ''starlightSingle'' \<or> eff = ''reactive'' then
           bind (color_args cs [0, 1, 2]) (\<lambda>a. invoke m fname (a @ [PyInt sp]) s)
         else if eff = ''ripple'' then Inr s
         else Inr s)
      else if arity m = 6 then
        bind (color_args cs [0, 1, 2, 3, 4, 5]) (\<lambda>a. invoke m fname a s)
      else if arity m = 7 then
        bind (color_args cs [0, 1, 2, 3, 4, 5]) (\<lambda>a. invoke m fname (a @ [PyInt sp]) s)
      else if arity m = 9 then
        bind (color_args cs [0, 1, 2, 3, 4, 5, 6, 7, 8]) (\<lambda>a. invoke m fname a s)
      else Inr s)"

text \<open>The body of the loop of \<^verbatim>\<open>restore_effect\<close> for the zone \<open>i\<close>.\<close>

definition restore_effect_zone :: "device_class \<Rightarrow> string \<Rightarrow> device \<Rightarrow> error + device" where
  "restore_effect_zone c i s =
     bind (zone_get s i) (\<lambda>z.
       if present z then
         bind (effect_func_name i (effect z)) (\<lambda>fname.
         bind (if attrs c fname = None \<and> effect z \<noteq> ''spectrum'' then
                 bind (spectrum_func_name i) (\<lambda>fname'.
                   Inr (fname', s\<lparr>zone := (zone s)(i \<mapsto> Zone (z\<lparr>effect := ''spectrum''\<rparr>))\<rparr>))
               else Inr (fname, s)) (\<lambda>(fname1, s1).
           case attrs c fname1 of
             None \<Rightarrow> Inr s1
           | Some m \<Rightarrow> bind (zone_get s1 i) (\<lambda>z1. dispatch m fname1 z1 s1)))
       else Inr s)"

fun for_each :: "('a \<Rightarrow> device \<Rightarrow> error + device) \<Rightarrow> 'a list \<Rightarrow> device \<Rightarrow> error + device" where
  "for_each body [] s = Inr s"
| "for_each body (i # is) s = bind (body i s) (for_each body is)"

definition restore_effect :: "device_class \<Rightarrow> device \<Rightarrow> error + device" where
  "restore_effect c s = for_each (restore_effect_zone c) ZONES s"

subsection \<open>Brightness, suspend and resume\<close>

text \<open>
  The two loops differ in the arguments alone: \<^verbatim>\<open>restore_brightness\<close> passes the
  zone's stored values, \<^verbatim>\<open>disable_brightness\<close> passes \<^verbatim>\<open>False\<close> and \<^verbatim>\<open>0\<close>.
\<close>

definition active_step ::
  "device_class \<Rightarrow> string \<Rightarrow> (zone_rec \<Rightarrow> pyval) \<Rightarrow> device \<Rightarrow> error + device" where
  "active_step c i arg s =
     (if ''set_'' @ i @ ''_active'' \<in> set (METHODS c) then
        bind (capitalize_first_char i) (\<lambda>z.
          case attrs c (''set'' @ z @ ''Active'') of
            None \<Rightarrow> Inr s
          | Some active_func \<Rightarrow>
              bind (zone_get s i) (\<lambda>r. invoke active_func (''set'' @ z @ ''Active'') [arg r] s))
      else Inr s)"

definition bright_func_name :: "device_class \<Rightarrow> string \<Rightarrow> error + string option" where
  "bright_func_name c i =
     (if i = ''backlight'' then Inr (Some ''setBrightness'')
      else if ''set_'' @ i @ ''_brightness'' \<in> set (METHODS c) then
        bind (capitalize_first_char i) (\<lambda>z. Inr (Some (''set'' @ z @ ''Brightness'')))
      else Inr None)"

definition bright_step ::
  "device_class \<Rightarrow> string \<Rightarrow> (zone_rec \<Rightarrow> pyval) \<Rightarrow> device \<Rightarrow> error + device" where
  "bright_step c i arg s =
     bind (bright_func_name c i) (\<lambda>name.
       case name of
         None \<Rightarrow> Inr s
       | Some fname \<Rightarrow>
           (case attrs c fname of
              None \<Rightarrow> Inr s
            | Some bright_func \<Rightarrow>
                bind (zone_get s i) (\<lambda>r. invoke bright_func fname [arg r] s)))"

definition brightness_zone ::
  "device_class \<Rightarrow> (zone_rec \<Rightarrow> pyval) \<Rightarrow> (zone_rec \<Rightarrow> pyval) \<Rightarrow> string \<Rightarrow> device
     \<Rightarrow> error + device" where
  "brightness_zone c act bri i s =
     bind (zone_get s i) (\<lambda>z.
       if present z then bind (active_step c i act s) (bright_step c i bri)
       else Inr s)"

definition restore_brightness :: "device_class \<Rightarrow> device \<Rightarrow> error + device" where
  "restore_brightness c s =
     for_each (brightness_zone c (\<lambda>z. PyBool (active z)) (\<lambda>z. PyFloat (brightness z))) ZONES s"

definition disable_brightness :: "device_class \<Rightarrow> device \<Rightarrow> error + device" where
  "disable_brightness c s =
     for_each (brightness_zone c (\<lambda>z. PyBool False) (\<lambda>z. PyInt 0)) ZONES s"

text \<open>
  \<^verbatim>\<open>open(device_mode_path, 'wb')\<close> comes first and fails on a missing or unwritable
  control file; the validation and the two-byte write follow.
\<close>

definition set_device_mode :: "nat \<Rightarrow> nat \<Rightarrow> device \<Rightarrow> error + device" where
  "set_device_mode mode_id param s =
     (case device_mode_file s of
        Absent \<Rightarrow> Inl FileNotFoundError
      | Unwritable \<Rightarrow> Inl PermissionError
      | File old \<Rightarrow>
          (let mode_id1 = (if mode_id \<notin> {0, 3} then 0 else mode_id);
               param1 = (if param \<noteq> 0 then 0 else param)
           in Inr (s\<lparr>device_mode_file := File [mode_id1, param1]\<rparr>)))"

text \<open>The hooks \<^verbatim>\<open>_suspend_device\<close> and \<^verbatim>\<open>_resume_device\<close> of the base class do nothing.\<close>

definition suspend_device :: "device_class \<Rightarrow> device \<Rightarrow> error + device" where
  "suspend_device c s =
     bind (disable_brightness c (s\<lparr>disable_notifications := True, disable_persistence := True\<rparr>))
       (\<lambda>s1. Inr (s1\<lparr>disable_notifications := False, disable_persistence := False\<rparr>))"

definition resume_device :: "device_class \<Rightarrow> device \<Rightarrow> error + device" where
  "resume_device c s =
     bind (if DRIVER_MODE c
           then set_device_mode 3 0 (s\<lparr>disable_notifications := True, disable_persistence := True\<rparr>)
           else Inr (s\<lparr>disable_notifications := True, disable_persistence := True\<rparr>))
       (\<lambda>s1. bind (restore_brightness c s1)
       (\<lambda>s2. Inr (s2\<lparr>disable_notifications := False, disable_persistence := False\<rparr>)))"

subsection \<open>DPI and poll rate\<close>

text \<open>\<^verbatim>\<open>min(xs, key=...)\<close>: the first element with the smallest key; ValueError on \<^verbatim>\<open>[]\<close>.\<close>

fun min_by :: "('a \<Rightarrow> int) \<Rightarrow> 'a \<Rightarrow> 'a list \<Rightarrow> 'a" where
  "min_by key best [] = best"
| "min_by key best (x # xs) = min_by key (if key x < key best then x else best) xs"

definition py_min :: "('a \<Rightarrow> int) \<Rightarrow> 'a list \<Rightarrow> error + 'a" where
  "py_min key xs = (case xs of [] \<Rightarrow> Inl ValueError | x # rest \<Rightarrow> Inr (min_by key x rest))"

text \<open>
  A comparison with \<^verbatim>\<open>DPI_MAX = None\<close> and a membership test in
  \<^verbatim>\<open>POLL_RATES = None\<close> raise TypeError. \<open>POLL_RATES\<close> is the value the
  constructor leaves (\<open>init_POLL_RATES\<close>).
\<close>

definition init_POLL_RATES :: "string list \<Rightarrow> int list option \<Rightarrow> int list option" where
  "init_POLL_RATES methods rates =
     (if ''set_poll_rate'' \<in> set methods \<and> (rates = None \<or> rates = Some [])
      then Some [125, 500, 1000] else rates)"

definition constrain_dpi :: "int option \<Rightarrow> int \<Rightarrow> error + int" where
  "constrain_dpi dpi_max v =
     (case dpi_max of None \<Rightarrow> Inl TypeError
      | Some m \<Rightarrow> Inr (if v > m then m else v))"

definition constrain_poll_rate :: "int list option \<Rightarrow> int \<Rightarrow> error + int" where
  "constrain_poll_rate rates v =
     (case rates of None \<Rightarrow> Inl TypeError
      | Some rs \<Rightarrow> if v \<notin> set rs then py_min (\<lambda>x. \<bar>x - v\<bar>) rs else Inr v)"

definition restore_dpi :: "device_class \<Rightarrow> device \<Rightarrow> error + device" where
  "restore_dpi c s =
     (case attrs c ''setDPI'' of
        None \<Rightarrow> Inr s
      | Some dpi_func \<Rightarrow>
          bind (constrain_dpi (DPI_MAX c) (fst (dpi s))) (\<lambda>x.
          bind (constrain_dpi (DPI_MAX c) (snd (dpi s))) (\<lambda>y.
            invoke dpi_func ''setDPI'' [PyInt x, PyInt y] (s\<lparr>dpi := (x, y)\<rparr>))))"

definition restore_poll_rate :: "device_class \<Rightarrow> device \<Rightarrow> error + device" where
  "restore_poll_rate c s =
     (case attrs c ''setPollRate'' of
        None \<Rightarrow> Inr s
      | Some poll_rate_func \<Rightarrow>
          bind (constrain_poll_rate (POLL_RATES c) (poll_rate s)) (\<lambda>r.
            invoke poll_rate_func ''setPollRate'' [PyInt r] (s\<lparr>poll_rate := r\<rparr>)))"

definition restore_dpi_poll_rate :: "device_class \<Rightarrow> device \<Rightarrow> error + device" where
  "restore_dpi_poll_rate c s = bind (restore_dpi c s) (restore_poll_rate c)"

subsection \<open>Closing\<close>

text \<open>
  \<open>close_hook\<close> is \<^verbatim>\<open>_close\<close> of the base class; \<open>capture_dpi\<close> and \<open>revert_mode\<close>
  are the first two statements of \<^verbatim>\<open>close\<close>, and only FileNotFoundError is caught.
\<close>

definition close_hook :: "device \<Rightarrow> device" where
  "close_hook s =
     s\<lparr>observer_list := [],
       battery_manager := (case battery_manager s of None \<Rightarrow> None | Some b \<Rightarrow> Some True)\<rparr>"

definition capture_dpi :: "device_class \<Rightarrow> device \<Rightarrow> error + device" where
  "capture_dpi c s =
     (if ''get_dpi_xy'' \<in> set (METHODS c) then
        (case attrs c ''getDPI'' of
           None \<Rightarrow> Inr s
         | Some dpi_func \<Rightarrow>
             bind (invoke dpi_func ''getDPI'' [] s) (\<lambda>s1. Inr (s1\<lparr>dpi := hw_dpi s1\<rparr>)))
      else Inr s)"

definition revert_mode :: "device_class \<Rightarrow> device \<Rightarrow> error + device" where
  "revert_mode c s =
     (if DRIVER_MODE c then
        (case set_device_mode 0 0 s of
           Inl e \<Rightarrow> if e = FileNotFoundError then Inr s else Inl e
         | Inr s1 \<Rightarrow> Inr s1)
      else Inr s)"

definition close :: "device_class \<Rightarrow> device \<Rightarrow> error + device" where
  "close c s =
     (if \<not> is_closed s then
        bind (capture_dpi c s) (\<lambda>s1.
        bind (revert_mode c s1) (\<lambda>s2.
          Inr ((close_hook s2)\<lparr>is_closed := True\<rparr>)))
      else Inr s)"

subsection \<open>The serial number\<close>

datatype read_result = Read_ok string | Read_OSError | Read_UnicodeDecodeError

text \<open>\<^verbatim>\<open>str.isspace\<close>, \<^verbatim>\<open>\d\<close> and \<^verbatim>\<open>[A-Z]\<close> on the characters below 256.\<close>

definition is_space :: "char \<Rightarrow> bool" where
  "is_space ch =
     (ch \<in> set [CHR 0x09, CHR 0x0A, CHR 0x0B, CHR 0x0C, CHR 0x0D, CHR 0x1C, CHR 0x1D,
                 CHR 0x1E, CHR 0x1F, CHR 0x20, CHR 0x85, CHR 0xA0])"

definition is_digit :: "char \<Rightarrow> bool" where
  "is_digit ch = (ch \<in> set ''0123456789'')"

definition is_upper_AZ :: "char \<Rightarrow> bool" where
  "is_upper_AZ ch = (ch \<in> set ''ABCDEFGHIJKLMNOPQRSTUVWXYZ'')"

definition digit_value :: "char \<Rightarrow> nat" where
  "digit_value ch =
     (case map_of (zip ''0123456789'' [0, 1, 2, 3, 4, 5, 6, 7, 8, 9]) ch of
        None \<Rightarrow> 0 | Some d \<Rightarrow> d)"

definition strip :: "string \<Rightarrow> string" where
  "strip str = rev (dropWhile is_space (rev (dropWhile is_space str)))"

text \<open>
  The retry loop; \<open>reads k\<close> is the outcome of the attempt number \<open>k\<close> to open and read
  the file \<^verbatim>\<open>device_serial\<close>.
\<close>

function read_serial :: "(nat \<Rightarrow> read_result) \<Rightarrow> nat \<Rightarrow> string \<Rightarrow> string" where
  "read_serial reads count serial =
     (if length serial = 0 \<and> \<not> count \<ge> 5 then
        read_serial reads (count + 1)
          (case reads count of Read_ok txt \<Rightarrow> strip txt
           | Read_OSError \<Rightarrow> [] | Read_UnicodeDecodeError \<Rightarrow> [])
      else serial)"
  by pat_completeness auto
termination
  by (relation "measure (\<lambda>(reads, count, serial). 5 - count)") auto

declare read_serial.simps [simp del]

definition fullmatch_serial :: "string \<Rightarrow> bool" where
  "fullmatch_serial str = (str \<noteq> [] \<and> list_all (\<lambda>ch. is_digit ch \<or> is_upper_AZ ch) str)"

fun digits_of :: "nat \<Rightarrow> nat \<Rightarrow> nat list" where
  "digits_of b n = (if n < b \<or> b < 2 then [n] else digits_of b (n div b) @ [n mod b])"

declare digits_of.simps [simp del]

definition digit_char :: "nat \<Rightarrow> char" where
  "digit_char d = ''0123456789ABCDEF'' ! d"

definition zero_pad :: "nat \<Rightarrow> string \<Rightarrow> string" where
  "zero_pad w str = replicate (w - length str) CHR ''0'' @ str"

text \<open>The format specifications \<^verbatim>\<open>04X\<close> and \<^verbatim>\<open>04d\<close>: the sign counts in the width.\<close>

definition format_sign_pad :: "nat \<Rightarrow> int \<Rightarrow> string" where
  "format_sign_pad b n =
     (if n < 0 then CHR ''-'' # zero_pad 3 (map digit_char (digits_of b (nat (- n))))
      else zero_pad 4 (map digit_char (digits_of b (nat n))))"

definition format_04X :: "int \<Rightarrow> string" where
  "format_04X n = format_sign_pad 16 n"

definition format_04d :: "int \<Rightarrow> string" where
  "format_04d n = format_sign_pad 10 n"

definition replace_spaces :: "string \<Rightarrow> string" where
  "replace_spaces str = map (\<lambda>ch. if ch = CHR '' '' then CHR ''_'' else ch) str"

text \<open>
  The counter dictionary is shared by all devices, so it is passed in and returned
  beside the device.
\<close>

definition get_serial ::
  "device_class \<Rightarrow> (nat \<Rightarrow> read_result) \<Rightarrow> (int \<times> int \<rightharpoonup> int) \<Rightarrow> device
     \<Rightarrow> string \<times> (int \<times> int \<rightharpoonup> int) \<times> device" where
  "get_serial c reads counter s =
     (case serial_cached s of
        Some cached \<Rightarrow> (cached, counter, s)
      | None \<Rightarrow>
          (let serial = read_serial reads 0 [];
               (serial1, counter1) =
                 (if \<not> fullmatch_serial serial then
                    (let vid = USB_VID c; pid = USB_PID c;
                         idx = (case counter (vid, pid) of None \<Rightarrow> 0 | Some k \<Rightarrow> k)
                     in (''UNKNOWN_'' @ format_04X vid @ format_04X pid @ ''_'' @ format_04d idx,
                         counter((vid, pid) \<mapsto> idx + 1)))
                  else (serial, counter));
               result = replace_spaces serial1
           in (result, counter1, s\<lparr>serial_cached := Some result\<rparr>)))"

subsection \<open>Loading a zone from the persistence file\<close>

text \<open>\<^verbatim>\<open>str.split(" ")\<close>: every single space separates, empty pieces are kept.\<close>

fun split_on :: "char \<Rightarrow> string \<Rightarrow> string list" where
  "split_on sep [] = [[]]"
| "split_on sep (ch # rest) =
     (if ch = sep then [] # split_on sep rest
      else (case split_on sep rest of
              [] \<Rightarrow> [[ch]]
            | w # ws \<Rightarrow> (ch # w) # ws))"

text \<open>
  \<^verbatim>\<open>int(item)\<close> on a string: surrounding white space, an optional sign, decimal digits
  with single underscores between digits; anything else raises ValueError. The white
  space \<^verbatim>\<open>int\<close> skips is not that of \<^verbatim>\<open>str.strip\<close>: the separators \<open>0x1C\<close> to
  \<open>0x1F\<close> are not skipped. More than 4300 digits raise ValueError as well (the limit
  of integer string conversion, at its default).
\<close>

definition is_int_space :: "char \<Rightarrow> bool" where
  "is_int_space ch =
     (ch \<in> set [CHR 0x09, CHR 0x0A, CHR 0x0B, CHR 0x0C, CHR 0x0D, CHR 0x20, CHR 0x85,
                 CHR 0xA0])"

definition int_strip :: "string \<Rightarrow> string" where
  "int_strip str = rev (dropWhile is_int_space (rev (dropWhile is_int_space str)))"

fun parse_digits :: "bool \<Rightarrow> string \<Rightarrow> nat \<Rightarrow> nat option" where
  "parse_digits prev [] acc = (if prev then Some acc else None)"
| "parse_digits prev (ch # rest) acc =
     (if is_digit ch then parse_digits True rest (10 * acc + digit_value ch)
      else if ch = CHR ''_'' \<and> prev then parse_digits False rest acc
      else None)"

definition int_digits :: "string \<Rightarrow> nat option" where
  "int_digits ds =
     (if length (filter is_digit ds) > 4300 then None else parse_digits False ds 0)"

definition py_int :: "string \<Rightarrow> error + int" where
  "py_int str =
     (case int_strip str of
        [] \<Rightarrow> Inl ValueError
      | ch # rest \<Rightarrow>
          if ch = CHR ''-'' then
            (case int_digits rest of None \<Rightarrow> Inl ValueError | Some n \<Rightarrow> Inr (- int n))
          else if ch = CHR ''+'' then
            (case int_digits rest of None \<Rightarrow> Inl ValueError | Some n \<Rightarrow> Inr (int n))
          else
            (case int_digits (ch # rest) of None \<Rightarrow> Inl ValueError | Some n \<Rightarrow> Inr (int n)))"

text \<open>
  The loop \<^verbatim>\<open>for index, item in enumerate(...)\<close> of the constructor: the item is
  converted, then stored at \<^verbatim>\<open>colors[index]\<close> (IndexError beyond the end of the list),
  then checked against the range.
\<close>

fun colors_loop :: "nat \<Rightarrow> string list \<Rightarrow> int list \<Rightarrow> error + int list" where
  "colors_loop index [] cs = Inr cs"
| "colors_loop index (item # items) cs =
     bind (py_int item) (\<lambda>v.
       if index < length cs then
         (if \<not> (0 \<le> v \<and> v \<le> 255) then Inl ValueError
          else colors_loop (index + 1) items (cs[index := v]))
       else Inl IndexError)"

text \<open>
  \<open>stored\<close> is the value of the key \<^verbatim>\<open><zone>_colors\<close>, \<open>None\<close> when the key is missing
  (KeyError, caught). ValueError is caught and resets the colors; no handler catches
  IndexError.
\<close>

definition load_colors :: "string option \<Rightarrow> zone_rec \<Rightarrow> error + zone_rec" where
  "load_colors stored z =
     (case stored of
        None \<Rightarrow> Inr z
      | Some txt \<Rightarrow>
          (case colors_loop 0 (split_on CHR '' '' txt) (colors z) of
             Inl e \<Rightarrow> if e = ValueError then Inr (z\<lparr>colors := default_colors\<rparr>) else Inl e
           | Inr cs \<Rightarrow>
               if length cs \<noteq> 9 then Inr (z\<lparr>colors := default_colors\<rparr>)
               else Inr (z\<lparr>colors := cs\<rparr>)))"

definition load_effect :: "string option \<Rightarrow> zone_rec \<Rightarrow> zone_rec" where
  "load_effect stored z = (case stored of None \<Rightarrow> z | Some v \<Rightarrow> z\<lparr>effect := v\<rparr>)"

subsection \<open>Instances used in the examples\<close>

text \<open>The dictionary the constructor gives every zone, and a device fresh from it.\<close>

definition new_zone :: zone_rec where
  "new_zone = \<lparr>present = False, active = True, brightness = 75, effect = ''spectrum'',
     colors = default_colors, speed = 1, wave_dir = 1, other = []\<rparr>"

definition new_device :: device where
  "new_device = \<lparr>zone = (\<lambda>i. if i \<in> set ZONES then Some (Zone new_zone) else None),
     dpi = (1800, 1800), poll_rate = 500, serial_cached = None, observer_list = [],
     parent = None, effect_sync_propagate_up = False, disable_notifications = False,
     disable_persistence = False, is_closed = False, battery_manager = None,
     persistence_changed = False, calls = [], delivered = [],
     device_mode_file = File [0, 0], hw_dpi = (1800, 1800)\<rparr>"

definition with_zone :: "string \<Rightarrow> zone_rec \<Rightarrow> device \<Rightarrow> device" where
  "with_zone i z s = s\<lparr>zone := (zone s)(i \<mapsto> Zone z)\<rparr>"

text \<open>An operation that persists one field of a zone and broadcasts its own call.\<close>

definition setter :: "nat \<Rightarrow> string \<Rightarrow> string \<Rightarrow> (pyval list \<Rightarrow> field) \<Rightarrow> operation" where
  "setter n name zn fld =
     \<lparr>arity = n, script = (\<lambda>args. [Persist zn (fld args), Event name args])\<rparr>"

definition new_class :: device_class where
  "new_class = \<lparr>METHODS = [], USB_VID = 0x1532, USB_PID = 0x0043, DPI_MAX = None,
     POLL_RATES = None, DRIVER_MODE = False, attrs = Map.empty\<rparr>"

definition as_active :: "pyval list \<Rightarrow> field" where
  "as_active args = (case args of PyBool b # rest \<Rightarrow> Active b | _ \<Rightarrow> Other ''active'' PySelf)"

definition as_brightness :: "pyval list \<Rightarrow> field" where
  "as_brightness args =
     (case args of PyFloat r # rest \<Rightarrow> Brightness r
      | PyInt n # rest \<Rightarrow> Brightness (of_int n)
      | _ \<Rightarrow> Other ''brightness'' PySelf)"

definition as_wave_dir :: "pyval list \<Rightarrow> field" where
  "as_wave_dir args = (case args of PyInt n # rest \<Rightarrow> Wave_dir n | _ \<Rightarrow> Other ''wave_dir'' PySelf)"

text \<open>A mouse with a logo zone, two observers and a parent.\<close>

definition mouse_class :: device_class where
  "mouse_class = \<lparr>METHODS = [''set_logo_active'', ''set_logo_brightness'', ''set_logo_static'',
       ''set_dpi_xy'', ''get_dpi_xy'', ''set_poll_rate''],
     USB_VID = 0x1532, USB_PID = 0x0043, DPI_MAX = Some 1600,
     POLL_RATES = Some [125, 500, 1000], DRIVER_MODE = True,
     attrs = [''setLogoActive'' \<mapsto> setter 1 ''setLogoActive'' ''logo'' as_active,
              ''setLogoBrightness'' \<mapsto> setter 1 ''setLogoBrightness'' ''logo'' as_brightness,
              ''setLogoWave'' \<mapsto> setter 1 ''setLogoWave'' ''logo'' as_wave_dir,
              ''setLogoSpectrum'' \<mapsto>
                 setter 0 ''setLogoSpectrum'' ''logo'' (\<lambda>args. Effect ''spectrum''),
              ''setDPI'' \<mapsto> \<lparr>arity = 2, script = (\<lambda>args. [Event ''setDPI'' args])\<rparr>,
              ''setPollRate'' \<mapsto> \<lparr>arity = 1, script = (\<lambda>args. [Event ''setPollRate'' args])\<rparr>,
              ''getDPI'' \<mapsto> \<lparr>arity = 0, script = (\<lambda>args. [])\<rparr>]\<rparr>"

definition mouse :: device where
  "mouse = (with_zone ''logo''
     (new_zone\<lparr>present := True, effect := ''wave'', wave_dir := 2, brightness := 40\<rparr>) new_device)
     \<lparr>observer_list := [1, 2], parent := Some 7, effect_sync_propagate_up := True\<rparr>"

subsection \<open>Relations between the state before and after a call\<close>

text \<open>
  \<open>untouched s s'\<close>: the attributes that neither \<^verbatim>\<open>set_persistence\<close> nor
  \<^verbatim>\<open>notify_observers\<close> writes are the same in both states. \<open>muted s\<close>: both
  disable flags are set. \<open>only_calls s s'\<close>: the states differ in \<open>calls\<close> at most.
\<close>

definition untouched :: "device \<Rightarrow> device \<Rightarrow> bool" where
  "untouched s s' =
     (dpi s' = dpi s \<and> poll_rate s' = poll_rate s \<and> serial_cached s' = serial_cached s \<and>
      observer_list s' = observer_list s \<and> parent s' = parent s \<and>
      effect_sync_propagate_up s' = effect_sync_propagate_up s \<and>
      disable_notifications s' = disable_notifications s \<and>
      disable_persistence s' = disable_persistence s \<and> is_closed s' = is_closed s \<and>
      battery_manager s' = battery_manager s \<and> calls s' = calls s \<and>
      device_mode_file s' = device_mode_file s \<and> hw_dpi s' = hw_dpi s)"

definition muted :: "device \<Rightarrow> bool" where
  "muted s = (disable_notifications s \<and> disable_persistence s)"

definition only_calls :: "device \<Rightarrow> device \<Rightarrow> bool" where
  "only_calls s s' = (\<exists>cl. s' = s\<lparr>calls := cl\<rparr>)"

text \<open>
  A device whose fast-charging zone has lost the effect stored for it: the file says
  wave, the device offers static and spectrum only.
\<close>

definition charger_class :: device_class where
  "charger_class = \<lparr>METHODS = [''set_fast_charging_static''], USB_VID = 0x1532,
     USB_PID = 0x007E, DPI_MAX = None, POLL_RATES = None, DRIVER_MODE = False,
     attrs = [''setFastChargingSpectrum'' \<mapsto>
                 setter 0 ''setFastChargingSpectrum'' ''fast_charging'' (\<lambda>args. Effect ''spectrum''),
              ''setFastChargingStatic'' \<mapsto>
                 setter 3 ''setFastChargingStatic'' ''fast_charging'' (\<lambda>args. Effect ''static'')]\<rparr>"

definition charger :: device where
  "charger = with_zone ''fast_charging'' (new_zone\<lparr>present := True, effect := ''wave''\<rparr>) new_device"

definition zone_effect :: "device \<Rightarrow> string \<Rightarrow> string option" where
  "zone_effect s i = (case zone s i of Some (Zone z) \<Rightarrow> Some (effect z) | _ \<Rightarrow> None)"

text \<open>
  Two serial files: one that fails to open once and then reads a placeholder, one that
  never opens.
\<close>

definition bad_serial_file :: "nat \<Rightarrow> read_result" where
  "bad_serial_file k = (if k = 0 then Read_OSError else Read_ok ''Default string'')"

definition no_serial_file :: "nat \<Rightarrow> read_result" where
  "no_serial_file k = Read_OSError"

text \<open>
  \<open>one_parameter c\<close>: the brightness and active setters the class has take one
  parameter, as the calls of \<^verbatim>\<open>restore_brightness\<close> and \<^verbatim>\<open>disable_brightness\<close>
  assume.
\<close>

definition one_parameter :: "device_class \<Rightarrow> bool" where
  "one_parameter c =
     ((\<forall>m. attrs c ''setBrightness'' = Some m \<longrightarrow> arity m = 1) \<and>
      (\<forall>i z m. capitalize_first_char i = Inr z \<longrightarrow>
         (attrs c (''set'' @ z @ ''Active'') = Some m \<longrightarrow> arity m = 1) \<and>
         (attrs c (''set'' @ z @ ''Brightness'') = Some m \<longrightarrow> arity m = 1)))"

text \<open>
  A keyboard: the mouse with a backlight zone restored by \<^verbatim>\<open>setStatic\<close>, so that the
  loop of \<^verbatim>\<open>restore_effect\<close> meets two present zones.
\<close>

definition keyboard_class :: device_class where
  "keyboard_class = mouse_class\<lparr>attrs := (attrs mouse_class)
     (''setStatic'' \<mapsto> setter 3 ''setStatic'' ''backlight'' (\<lambda>args. Effect ''static''))\<rparr>"

definition keyboard :: device where
  "keyboard = with_zone ''backlight''
     (new_zone\<lparr>present := True, effect := ''static'',
               colors := [10, 20, 30, 40, 50, 60, 70, 80, 90]\<rparr>) mouse"

section \<open>Properties\<close>

subsection \<open>Sequencing and frames\<close>

lemma bind_Inr_iff: "(bind r f = Inr y) = (\<exists>x. r = Inr x \<and> f x = Inr y)"
  by (cases r) (simp_all add: bind_def)

lemma bind_Inr [simp]: "bind (Inr x) f = f x"
  by (simp add: bind_def)

lemma bind_Inl [simp]: "bind (Inl e) f = Inl e"
  by (simp add: bind_def)

lemma for_each_append:
  "for_each body (xs @ ys) s = bind (for_each body xs s) (for_each body ys)"
  by (induction xs arbitrary: s) (simp_all add: bind_def split: sum.splits)

lemma for_each_skip:
  "\<forall>j\<in>set xs. body j s = Inr s \<Longrightarrow> for_each body xs s = Inr s"
  by (induction xs) simp_all

lemma untouched_refl [simp]: "untouched s s"
  by (simp add: untouched_def)

lemma untouched_trans: "untouched s s1 \<Longrightarrow> untouched s1 s2 \<Longrightarrow> untouched s s2"
  by (simp add: untouched_def)

lemma notify_observers_untouched: "untouched s (notify_observers msg s)"
  by (simp add: notify_observers_def untouched_def Let_def)

lemma set_persistence_untouched: "set_persistence zn kv s = Inr s' \<Longrightarrow> untouched s s'"
  by (auto simp: set_persistence_def Let_def untouched_def
      split: if_splits option.splits zone_entry.splits)

lemma run_script_untouched: "run_script as s = Inr s' \<Longrightarrow> untouched s s'"
proof (induction as s rule: run_script.induct)
  case (1 s)
  then show ?case by simp
next
  case (2 zn kv as s)
  from "2.prems" obtain s1 where a: "set_persistence zn kv s = Inr s1"
    and b: "run_script as s1 = Inr s'"
    by (auto split: sum.splits)
  show ?case
    using set_persistence_untouched[OF a] "2.IH"[OF a b] by (rule untouched_trans)
next
  case (3 name args as s)
  have "untouched s (send_effect_event name args s)"
    by (simp add: send_effect_event_def notify_observers_untouched)
  moreover have "untouched (send_effect_event name args s) s'"
    using "3.IH" "3.prems" by simp
  ultimately show ?case by (rule untouched_trans)
qed

lemma invoke_calls:
  "invoke m name args s = Inr s' \<Longrightarrow> untouched (s\<lparr>calls := calls s @ [(name, args)]\<rparr>) s'"
  by (auto simp: invoke_def split: if_splits dest: run_script_untouched)

text \<open>With both flags set a script changes nothing, so a call only extends \<open>calls\<close>.\<close>

lemma run_script_muted: "muted s \<Longrightarrow> run_script as s = Inr s"
  by (induction as s rule: run_script.induct)
     (simp_all add: muted_def set_persistence_def send_effect_event_def notify_observers_def)

lemma invoke_muted:
  assumes "muted s" and "invoke m name args s = Inr s'"
  shows "only_calls s s'"
proof -
  have "muted (s\<lparr>calls := calls s @ [(name, args)]\<rparr>)"
    using assms(1) by (simp add: muted_def)
  then have "run_script (script m args) (s\<lparr>calls := calls s @ [(name, args)]\<rparr>)
      = Inr (s\<lparr>calls := calls s @ [(name, args)]\<rparr>)"
    by (rule run_script_muted)
  with assms(2) have "s' = s\<lparr>calls := calls s @ [(name, args)]\<rparr>"
    by (simp add: invoke_def split: if_splits)
  then show ?thesis unfolding only_calls_def by blast
qed

lemma only_calls_refl [simp]: "only_calls s s"
  by (simp add: only_calls_def exI[of _ "calls s"])

lemma only_calls_trans: "only_calls s s1 \<Longrightarrow> only_calls s1 s2 \<Longrightarrow> only_calls s s2"
  by (auto simp: only_calls_def)

lemma only_calls_muted: "only_calls s s' \<Longrightarrow> muted s' = muted s"
  by (auto simp: only_calls_def muted_def)

lemma only_calls_zone: "only_calls s s' \<Longrightarrow> zone s' = zone s \<and> delivered s' = delivered s"
  by (auto simp: only_calls_def)

lemma active_step_muted:
  "muted s \<Longrightarrow> active_step c i arg s = Inr s' \<Longrightarrow> only_calls s s'"
  by (auto simp: active_step_def bind_Inr_iff split: if_splits option.splits
      dest: invoke_muted)

lemma bright_step_muted:
  assumes "muted s" and "bright_step c i arg s = Inr s'"
  shows "only_calls s s'"
proof -
  from assms(2) obtain name where
    r: "(case name of None \<Rightarrow> Inr s
         | Some fname \<Rightarrow>
             (case attrs c fname of None \<Rightarrow> Inr s
              | Some bright_func \<Rightarrow>
                  bind (zone_get s i) (\<lambda>r. invoke bright_func fname [arg r] s))) = Inr s'"
    by (auto simp: bright_step_def bind_Inr_iff)
  then show ?thesis
    using assms(1)
    by (auto simp: bind_Inr_iff split: option.splits dest: invoke_muted)
qed

lemma brightness_zone_muted:
  assumes "muted s" and "brightness_zone c act bri i s = Inr s'"
  shows "only_calls s s'"
proof -
  from assms(2) obtain z where z: "zone_get s i = Inr z"
    and r: "(if present z then bind (active_step c i act s) (bright_step c i bri) else Inr s)
              = Inr s'"
    by (auto simp: brightness_zone_def bind_Inr_iff)
  show ?thesis
  proof (cases "present z")
    case True
    with r obtain s1 where a: "active_step c i act s = Inr s1"
      and b: "bright_step c i bri s1 = Inr s'"
      by (auto simp: bind_Inr_iff)
    from active_step_muted[OF assms(1) a] have 1: "only_calls s s1" .
    with assms(1) have "muted s1" by (simp add: only_calls_muted)
    from bright_step_muted[OF this b] 1 show ?thesis by (blast intro: only_calls_trans)
  next
    case False
    with r show ?thesis by simp
  qed
qed

lemma for_each_muted:
  assumes step: "\<And>i s s'. muted s \<Longrightarrow> body i s = Inr s' \<Longrightarrow> only_calls s s'"
  shows "muted s \<Longrightarrow> for_each body zs s = Inr s' \<Longrightarrow> only_calls s s'"
proof (induction zs arbitrary: s)
  case Nil
  then show ?case by simp
next
  case (Cons i zs)
  from Cons.prems(2) obtain s1 where a: "body i s = Inr s1" and b: "for_each body zs s1 = Inr s'"
    by (auto simp: bind_Inr_iff)
  from step[OF Cons.prems(1) a] have 1: "only_calls s s1" .
  with Cons.prems(1) have "muted s1" by (simp add: only_calls_muted)
  from Cons.IH[OF this b] 1 show ?case by (blast intro: only_calls_trans)
qed

lemma disable_brightness_muted:
  "muted s \<Longrightarrow> disable_brightness c s = Inr s' \<Longrightarrow> only_calls s s'"
  unfolding disable_brightness_def by (rule for_each_muted[OF brightness_zone_muted])

lemma restore_brightness_muted:
  "muted s \<Longrightarrow> restore_brightness c s = Inr s' \<Longrightarrow> only_calls s s'"
  unfolding restore_brightness_def by (rule for_each_muted[OF brightness_zone_muted])

lemma set_device_mode_zone:
  "set_device_mode a b s = Inr s' \<Longrightarrow>
   zone s' = zone s \<and> delivered s' = delivered s \<and> muted s' = muted s"
  by (auto simp: set_device_mode_def Let_def muted_def split: ctrl_file.splits)

subsection \<open>Evaluating the examples\<close>

lemmas model_defs =
  suspend_device_def resume_device_def disable_brightness_def restore_brightness_def
  brightness_zone_def active_step_def bright_step_def bright_func_name_def zone_get_def
  capitalize_first_char_def upper_def invoke_def set_persistence_def send_effect_event_def
  notify_observers_def set_device_mode_def ZONES_def

lemmas example_defs =
  mouse_def mouse_class_def new_device_def new_zone_def with_zone_def setter_def
  as_active_def as_brightness_def as_wave_dir_def default_colors_def

lemma mouse_suspend:
  "suspend_device mouse_class mouse =
     Inr (mouse\<lparr>calls := [(''setLogoActive'', [PyBool False]),
                          (''setLogoBrightness'', [PyInt 0])]\<rparr>)"
  by (simp add: model_defs example_defs)

lemma mouse_resume:
  "resume_device mouse_class
     (mouse\<lparr>calls := [(''setLogoActive'', [PyBool False]), (''setLogoBrightness'', [PyInt 0])]\<rparr>) =
     Inr (mouse\<lparr>calls := [(''setLogoActive'', [PyBool False]), (''setLogoBrightness'', [PyInt 0]),
        (''setLogoActive'', [PyBool True]), (''setLogoBrightness'', [PyFloat 40])],
        device_mode_file := File [3, 0]\<rparr>)"
  by (simp add: model_defs example_defs)

text \<open>
  Outside suspend and resume the same calls do write the zone and reach the parent and
  the two observers: the flags are what keeps the state in the theorems below.
\<close>

lemma mouse_disable_brightness_unmuted:
  "map_sum id (\<lambda>s. (zone s ''logo'', length (delivered s))) (disable_brightness mouse_class mouse) =
     Inr (Some (Zone (new_zone\<lparr>present := True, active := False, effect := ''wave'',
                              wave_dir := 2, brightness := 0\<rparr>)), 6)"
  by (simp add: model_defs example_defs)

subsection \<open>Observer notification\<close>

text \<open>
  C6. \<^verbatim>\<open>notify_observers\<close> delivers nothing when the disable-notifications flag is set;
  otherwise, when propagation to the parent is enabled and a parent is registered, the
  message goes first to the parent and then to every registered observer in registration
  order, and with no parent or no propagation to the observers alone.
\<close>

theorem notify_observers_delivery:
  "(disable_notifications s \<longrightarrow> notify_observers msg s = s) \<and>
   (\<not> disable_notifications s \<and> effect_sync_propagate_up s \<and> parent s = Some p \<longrightarrow>
      delivered (notify_observers msg s) =
        delivered s @ (To_parent p, msg) # map (\<lambda>ob. (To_observer ob, msg)) (observer_list s)) \<and>
   (\<not> disable_notifications s \<and> \<not> (effect_sync_propagate_up s \<and> parent s \<noteq> None) \<longrightarrow>
      delivered (notify_observers msg s) =
        delivered s @ map (\<lambda>ob. (To_observer ob, msg)) (observer_list s))"
  by (simp add: notify_observers_def Let_def)

theorem notify_observers_delivery_witness:
  "notify_observers [PyStr ''effect''] (mouse\<lparr>disable_notifications := True\<rparr>)
     = mouse\<lparr>disable_notifications := True\<rparr> \<and>
   delivered (notify_observers [PyStr ''effect''] mouse) =
     [(To_parent 7, [PyStr ''effect'']), (To_observer 1, [PyStr ''effect'']),
      (To_observer 2, [PyStr ''effect''])] \<and>
   delivered (notify_observers [PyStr ''effect''] (mouse\<lparr>effect_sync_propagate_up := False\<rparr>)) =
     [(To_observer 1, [PyStr ''effect'']), (To_observer 2, [PyStr ''effect''])]"
  using notify_observers_delivery[of "mouse\<lparr>disable_notifications := True\<rparr>" "[PyStr ''effect'']" 7]
    notify_observers_delivery[of mouse "[PyStr ''effect'']" 7]
    notify_observers_delivery[of "mouse\<lparr>effect_sync_propagate_up := False\<rparr>" "[PyStr ''effect'']" 7]
  by (simp add: example_defs)

subsection \<open>Suspend and resume\<close>

text \<open>
  C5. Whenever \<^verbatim>\<open>suspend_device\<close> and then \<^verbatim>\<open>resume_device\<close> return, the zone
  dictionary, and with it every zone's brightness and active value, is what it was before
  the suspend, and no \<^verbatim>\<open>notify_observers\<close> call of either transition has delivered
  anything to the parent or to an observer.
\<close>

theorem suspend_resume_preserves_zones:
  assumes "suspend_device c s = Inr s1" and "resume_device c s1 = Inr s2"
  shows "zone s2 = zone s \<and> delivered s2 = delivered s"
proof -
  let ?on = "\<lambda>t. t\<lparr>disable_notifications := True, disable_persistence := True\<rparr>"
  have m: "\<And>t. muted (?on t)" by (simp add: muted_def)
  from assms(1) obtain t1 where d: "disable_brightness c (?on s) = Inr t1"
    and s1: "s1 = t1\<lparr>disable_notifications := False, disable_persistence := False\<rparr>"
    by (auto simp: suspend_device_def bind_Inr_iff)
  from disable_brightness_muted[OF m d] have "zone t1 = zone s \<and> delivered t1 = delivered s"
    by (auto dest: only_calls_zone)
  with s1 have a: "zone s1 = zone s \<and> delivered s1 = delivered s" by simp
  from assms(2) obtain u1 u2 where
    md: "(if DRIVER_MODE c then set_device_mode 3 0 (?on s1) else Inr (?on s1)) = Inr u1"
    and rb: "restore_brightness c u1 = Inr u2"
    and s2: "s2 = u2\<lparr>disable_notifications := False, disable_persistence := False\<rparr>"
    by (auto simp: resume_device_def bind_Inr_iff)
  from md m[of s1] have u1: "zone u1 = zone s1 \<and> delivered u1 = delivered s1 \<and> muted u1"
    by (auto split: if_splits dest: set_device_mode_zone)
  then have "muted u1" by simp
  from restore_brightness_muted[OF this rb] have "zone u2 = zone u1 \<and> delivered u2 = delivered u1"
    by (auto dest: only_calls_zone)
  with u1 s2 a show ?thesis by simp
qed

theorem suspend_resume_preserves_zones_witness:
  "\<exists>s1 s2. suspend_device mouse_class mouse = Inr s1 \<and> resume_device mouse_class s1 = Inr s2 \<and>
     zone s2 = zone mouse \<and> delivered s2 = delivered mouse \<and>
     calls s2 = [(''setLogoActive'', [PyBool False]), (''setLogoBrightness'', [PyInt 0]),
                 (''setLogoActive'', [PyBool True]), (''setLogoBrightness'', [PyFloat 40])]"
  using suspend_resume_preserves_zones[OF mouse_suspend mouse_resume] mouse_suspend mouse_resume
  by simp

text \<open>
  C10. When \<^verbatim>\<open>suspend_device\<close> or \<^verbatim>\<open>resume_device\<close> returns, the
  disable-notifications flag and the disable-persistence flag are both false, whatever
  they were before the call.
\<close>

theorem suspend_resume_flags_cleared:
  "(suspend_device c s = Inr s' \<longrightarrow> \<not> disable_notifications s' \<and> \<not> disable_persistence s') \<and>
   (resume_device c s = Inr s' \<longrightarrow> \<not> disable_notifications s' \<and> \<not> disable_persistence s')"
  by (auto simp: suspend_device_def resume_device_def bind_Inr_iff)

lemma muted_mouse_suspend:
  "suspend_device mouse_class
     (mouse\<lparr>disable_notifications := True, disable_persistence := True\<rparr>) =
     Inr (mouse\<lparr>calls := [(''setLogoActive'', [PyBool False]),
                          (''setLogoBrightness'', [PyInt 0])]\<rparr>)"
  by (simp add: model_defs example_defs)

lemma muted_mouse_resume:
  "resume_device mouse_class
     (mouse\<lparr>disable_notifications := True, disable_persistence := True\<rparr>) =
     Inr (mouse\<lparr>calls := [(''setLogoActive'', [PyBool True]),
                          (''setLogoBrightness'', [PyFloat 40])],
                device_mode_file := File [3, 0]\<rparr>)"
  by (simp add: model_defs example_defs)

theorem suspend_resume_flags_cleared_witness:
  "disable_notifications (mouse\<lparr>disable_notifications := True, disable_persistence := True\<rparr>) \<and>
   disable_persistence (mouse\<lparr>disable_notifications := True, disable_persistence := True\<rparr>) \<and>
   (\<exists>s'. suspend_device mouse_class
            (mouse\<lparr>disable_notifications := True, disable_persistence := True\<rparr>) = Inr s' \<and>
          \<not> disable_notifications s' \<and> \<not> disable_persistence s') \<and>
   (\<exists>s'. resume_device mouse_class
            (mouse\<lparr>disable_notifications := True, disable_persistence := True\<rparr>) = Inr s' \<and>
          \<not> disable_notifications s' \<and> \<not> disable_persistence s')"
proof -
  let ?m = "mouse\<lparr>disable_notifications := True, disable_persistence := True\<rparr>"
  have a: "disable_notifications ?m \<and> disable_persistence ?m" by simp
  have b: "\<exists>s'. suspend_device mouse_class ?m = Inr s' \<and>
          \<not> disable_notifications s' \<and> \<not> disable_persistence s'"
    using suspend_resume_flags_cleared[of mouse_class ?m] muted_mouse_suspend by blast
  have c: "\<exists>s'. resume_device mouse_class ?m = Inr s' \<and>
          \<not> disable_notifications s' \<and> \<not> disable_persistence s'"
    using suspend_resume_flags_cleared[of mouse_class ?m] muted_mouse_resume by blast
  from a b c show ?thesis by blast
qed

subsection \<open>Dispatch of the restored effect\<close>

lemmas effect_defs =
  restore_effect_def restore_effect_zone_def effect_func_name_def spectrum_func_name_def
  dispatch_def is_lower_az_def




lemma restore_effect_zone_absent:
  "zone s i = Some (Zone z) \<Longrightarrow> \<not> present z \<Longrightarrow> restore_effect_zone c i s = Inr s"
  by (simp add: restore_effect_zone_def zone_get_def)


text \<open>
  The loop up to a zone, the zone, the rest of the loop. An exception in an earlier zone
  ends \<^verbatim>\<open>restore_effect\<close> before a later one is reached.
\<close>

lemma restore_effect_split:
  assumes "i \<in> set ZONES"
  shows "restore_effect c s =
     bind (for_each (restore_effect_zone c) (takeWhile (\<lambda>j. j \<noteq> i) ZONES) s) (\<lambda>s1.
     bind (restore_effect_zone c i s1)
       (for_each (restore_effect_zone c) (tl (dropWhile (\<lambda>j. j \<noteq> i) ZONES))))"
proof -
  let ?pre = "takeWhile (\<lambda>j. j \<noteq> i) ZONES" and ?post = "dropWhile (\<lambda>j. j \<noteq> i) ZONES"
  from assms have ne: "?post \<noteq> []" by simp
  then have "hd ?post = i" using hd_dropWhile[of "\<lambda>j. j \<noteq> i" ZONES] by simp
  with ne have post: "?post = i # tl ?post" by (cases ?post) auto
  have "ZONES = ?pre @ i # tl ?post"
    using takeWhile_dropWhile_id[of "\<lambda>j. j \<noteq> i" ZONES] post by simp
  then have "restore_effect c s = for_each (restore_effect_zone c) (?pre @ i # tl ?post) s"
    unfolding restore_effect_def by simp
  moreover have "for_each (restore_effect_zone c) (i # tl ?post) =
      (\<lambda>s1. bind (restore_effect_zone c i s1) (for_each (restore_effect_zone c) (tl ?post)))"
    by (rule ext) simp
  ultimately show ?thesis by (simp only: for_each_append)
qed

lemma restore_effect_stops:
  assumes "i \<in> set ZONES"
    and "for_each (restore_effect_zone c) (takeWhile (\<lambda>j. j \<noteq> i) ZONES) s = Inl e"
  shows "restore_effect c s = Inl e"
  unfolding restore_effect_split[OF assms(1)] assms(2) by simp


text \<open>
  The keyboard: \<^verbatim>\<open>setStatic(10, 20, 30)\<close> for the backlight, then, in the state that
  call leaves, \<^verbatim>\<open>setLogoWave(2)\<close> for the zone logo with the effect wave, wave
  direction 2 and a setter of one parameter.
\<close>

lemmas keyboard_defs = keyboard_def keyboard_class_def

lemma keyboard_restore_effect:
  "map_sum id calls (restore_effect keyboard_class keyboard) =
     Inr [(''setStatic'', [PyInt 10, PyInt 20, PyInt 30]), (''setLogoWave'', [PyInt 2])]"
  by (simp add: effect_defs model_defs example_defs keyboard_defs)


text \<open>The whole loop on the mouse, whose only present zone is logo, makes this one call.\<close>

lemma mouse_restore_effect:
  "map_sum id calls (restore_effect mouse_class mouse) = Inr [(''setLogoWave'', [PyInt 2])]"
  by (simp add: effect_defs model_defs example_defs)

subsection \<open>The spectrum fallback\<close>

lemma restore_effect_zone_fallback:
  assumes "zone s i = Some (Zone z)" and "present z"
    and "effect_func_name i (effect z) = Inr fname" and "attrs c fname = None"
    and "effect z \<noteq> ''spectrum''" and "spectrum_func_name i = Inr sp"
  shows "restore_effect_zone c i s =
     (case attrs c sp of
        None \<Rightarrow> Inr (s\<lparr>zone := (zone s)(i \<mapsto> Zone (z\<lparr>effect := ''spectrum''\<rparr>))\<rparr>)
      | Some m \<Rightarrow> dispatch m sp (z\<lparr>effect := ''spectrum''\<rparr>)
                   (s\<lparr>zone := (zone s)(i \<mapsto> Zone (z\<lparr>effect := ''spectrum''\<rparr>))\<rparr>))"
  using assms by (simp add: restore_effect_zone_def zone_get_def split: option.splits)

text \<open>
  On a one-word zone the fallback does what it is meant to do: the logo zone of the
  mouse with an effect it has no setter for is set to spectrum, \<^verbatim>\<open>setLogoSpectrum()\<close>
  is called, and a second call of \<^verbatim>\<open>restore_effect\<close> restores spectrum as such.
\<close>

lemma mouse_fallback:
  "map_sum id (\<lambda>s. (calls s, zone_effect s ''logo''))
     (restore_effect mouse_class
        (with_zone ''logo'' (new_zone\<lparr>present := True, effect := ''breath''\<rparr>) new_device))
     = Inr ([(''setLogoSpectrum'', [])], Some ''spectrum'')"
  by (simp add: effect_defs model_defs example_defs zone_effect_def)

text \<open>
  C3. Specified: a present zone whose stored effect has no setter and is not spectrum is
  set to spectrum and its spectrum setter is called, for zones of several words such as
  fast_charging too, once. The code on the zone fast_charging: the main path composes
  the name with \<^verbatim>\<open>handle_underscores\<close>, the fallback path does not, so it looks up
  \<^verbatim>\<open>setFast_chargingSpectrum\<close>. The charger has \<^verbatim>\<open>setFastChargingSpectrum\<close>; the
  first \<^verbatim>\<open>restore_effect\<close> changes the stored effect to spectrum and calls nothing,
  and only a second one calls the spectrum setter.
\<close>

theorem restore_effect_fallback_misses_fast_charging:
  "attrs charger_class ''setFastChargingSpectrum'' \<noteq> None \<and>
   effect_func_name ''fast_charging'' ''spectrum'' = Inr ''setFastChargingSpectrum'' \<and>
   spectrum_func_name ''fast_charging'' = Inr ''setFast_chargingSpectrum'' \<and>
   map_sum id (\<lambda>s. (calls s, zone_effect s ''fast_charging''))
     (restore_effect charger_class charger) = Inr ([], Some ''spectrum'') \<and>
   map_sum id calls (bind (restore_effect charger_class charger) (restore_effect charger_class))
     = Inr [(''setFastChargingSpectrum'', [])]"
  by (simp add: effect_defs model_defs example_defs charger_def charger_class_def zone_effect_def)

subsection \<open>An empty effect name\<close>

lemma effect_func_name_empty: "effect_func_name i [] = Inl IndexError"
  by (simp add: effect_func_name_def capitalize_first_char_def bind_def split: list.splits)

lemma restore_effect_zone_empty_effect:
  "zone s i = Some (Zone z) \<Longrightarrow> present z \<Longrightarrow> effect z = [] \<Longrightarrow>
   restore_effect_zone c i s = Inl IndexError"
  by (simp add: restore_effect_zone_def zone_get_def effect_func_name_empty)

text \<open>
  C9. When the first present zone of \<^verbatim>\<open>ZONES\<close> has the empty string as its effect
  name, \<^verbatim>\<open>capitalize_first_char\<close> raises IndexError while the setter name is composed,
  before the spectrum fallback is reached, and the error leaves \<^verbatim>\<open>restore_effect\<close>.
  The load path stores the persisted effect as it is, the empty string included.
\<close>

theorem restore_effect_empty_effect_escapes:
  assumes i: "i \<in> set ZONES" and zone: "zone s i = Some (Zone z)" and pres: "present z"
    and empty: "effect z = []"
    and before: "\<forall>j\<in>set (takeWhile (\<lambda>j. j \<noteq> i) ZONES).
                   \<exists>zj. zone s j = Some (Zone zj) \<and> \<not> present zj"
  shows "restore_effect c s = Inl IndexError"
proof -
  let ?pre = "takeWhile (\<lambda>j. j \<noteq> i) ZONES" and ?post = "dropWhile (\<lambda>j. j \<noteq> i) ZONES"
  from i have "?post \<noteq> []" by simp
  moreover from this have "hd ?post = i" using hd_dropWhile[of "\<lambda>j. j \<noteq> i" ZONES] by simp
  ultimately obtain rest where post: "?post = i # rest" by (cases ?post) auto
  have split: "ZONES = ?pre @ i # rest"
    using takeWhile_dropWhile_id[of "\<lambda>j. j \<noteq> i" ZONES] post by simp
  have "\<forall>j\<in>set ?pre. restore_effect_zone c j s = Inr s"
    using before by (auto simp: restore_effect_zone_absent)
  then have skip: "for_each (restore_effect_zone c) ?pre s = Inr s"
    by (rule for_each_skip)
  have "restore_effect c s = for_each (restore_effect_zone c) (?pre @ i # rest) s"
    unfolding restore_effect_def using split by simp
  also have "\<dots> = for_each (restore_effect_zone c) (i # rest) s"
    by (simp only: for_each_append skip bind_Inr)
  also have "\<dots> = Inl IndexError"
    using restore_effect_zone_empty_effect[OF zone pres empty] by simp
  finally show ?thesis .
qed

theorem restore_effect_empty_effect_escapes_witness:
  "effect (load_effect (Some []) (new_zone\<lparr>present := True\<rparr>)) = [] \<and>
   restore_effect mouse_class
     (with_zone ''logo'' (load_effect (Some []) (new_zone\<lparr>present := True\<rparr>)) new_device)
     = Inl IndexError"
proof -
  let ?z = "load_effect (Some []) (new_zone\<lparr>present := True\<rparr>)"
  let ?s = "with_zone ''logo'' ?z new_device"
  have i: "''logo'' \<in> set ZONES" by (simp add: ZONES_def)
  have z: "zone ?s ''logo'' = Some (Zone ?z)" by (simp add: with_zone_def)
  have p: "present ?z" by (simp add: load_effect_def)
  have e: "effect ?z = []" by (simp add: load_effect_def)
  have b: "\<forall>j\<in>set (takeWhile (\<lambda>j. j \<noteq> ''logo'') ZONES).
             \<exists>zj. zone ?s j = Some (Zone zj) \<and> \<not> present zj"
    by (simp add: ZONES_def with_zone_def new_device_def new_zone_def)
  show ?thesis
    using restore_effect_empty_effect_escapes[OF i z p e b] e by simp
qed

subsection \<open>Generated serial numbers\<close>

lemma replicate_numeral: "replicate (numeral k) x = x # replicate (numeral k - 1) x"
  by (simp add: numeral_eq_Suc)

lemmas format_defs =
  format_04X_def format_04d_def format_sign_pad_def zero_pad_def digits_of.simps digit_char_def
  replicate_numeral

lemma format_examples:
  "format_04X 0x1532 = ''1532''" "format_04X 0x43 = ''0043''" "format_04X 0x12345 = ''12345''"
  "format_04X (- 255) = ''-0FF''" "format_04d 0 = ''0000''" "format_04d 1 = ''0001''"
  "format_04d 12345 = ''12345''"
  by (simp_all add: format_defs)

lemma digits_of_less: "2 \<le> b \<Longrightarrow> \<forall>d\<in>set (digits_of b n). d < b"
proof (induction b n rule: digits_of.induct)
  case (1 b n)
  show ?case
  proof (cases "n < b \<or> b < 2")
    case True
    with "1.prems" show ?thesis by (subst digits_of.simps) auto
  next
    case False
    with "1.IH" "1.prems" show ?thesis by (subst digits_of.simps) auto
  qed
qed

lemma digit_char_no_space:
  assumes "d < 16"
  shows "digit_char d \<noteq> CHR '' ''"
proof -
  have "digit_char d \<in> set ''0123456789ABCDEF''"
    unfolding digit_char_def using assms by (intro nth_mem) simp
  moreover have "CHR '' '' \<notin> set ''0123456789ABCDEF''" by simp
  ultimately show ?thesis by metis
qed

lemma format_sign_pad_no_space:
  assumes "2 \<le> b" and "b \<le> 16"
  shows "CHR '' '' \<notin> set (format_sign_pad b n)"
proof -
  have digits: "CHR '' '' \<notin> set (map digit_char (digits_of b m))" for m
  proof
    assume "CHR '' '' \<in> set (map digit_char (digits_of b m))"
    then obtain d where "d \<in> set (digits_of b m)" and "digit_char d = CHR '' ''"
      by auto
    moreover from this digits_of_less[OF assms(1), of m] assms(2) have "d < 16"
      by fastforce
    ultimately show False using digit_char_no_space by blast
  qed
  have pad: "CHR '' '' \<notin> set (zero_pad w (map digit_char (digits_of b m)))" for w m
    using digits[of m] by (auto simp: zero_pad_def)
  show ?thesis
    unfolding format_sign_pad_def using pad by simp
qed

lemma replace_spaces_id: "CHR '' '' \<notin> set str \<Longrightarrow> replace_spaces str = str"
  by (induction str) (auto simp: replace_spaces_def)

lemma generated_serial_no_space:
  "CHR '' '' \<notin> set (''UNKNOWN_'' @ format_04X v @ format_04X p @ ''_'' @ format_04d k)"
  using format_sign_pad_no_space[of 16 v] format_sign_pad_no_space[of 16 p]
    format_sign_pad_no_space[of 10 k]
  by (simp add: format_04X_def format_04d_def)

lemma get_serial_fresh:
  assumes "serial_cached s = None" and "\<not> fullmatch_serial (read_serial reads 0 [])"
  shows "get_serial c reads counter s =
     (let idx = (case counter (USB_VID c, USB_PID c) of None \<Rightarrow> 0 | Some k \<Rightarrow> k);
          serial = ''UNKNOWN_'' @ format_04X (USB_VID c) @ format_04X (USB_PID c) @ ''_''
                     @ format_04d idx
      in (serial, counter((USB_VID c, USB_PID c) \<mapsto> idx + 1),
          s\<lparr>serial_cached := Some serial\<rparr>))"
proof -
  let ?idx = "case counter (USB_VID c, USB_PID c) of None \<Rightarrow> 0 | Some k \<Rightarrow> k"
  let ?serial = "''UNKNOWN_'' @ format_04X (USB_VID c) @ format_04X (USB_PID c) @ ''_''
                     @ format_04d ?idx"
  have "replace_spaces ?serial = ?serial"
    by (rule replace_spaces_id) (rule generated_serial_no_space)
  then show ?thesis
    using assms unfolding get_serial_def Let_def by simp
qed

text \<open>
  C4. When no serial is cached and the string the retry loop ends with does not match
  \<^verbatim>\<open>[\dA-Z]+\<close>, \<^verbatim>\<open>get_serial\<close> returns \<^verbatim>\<open>UNKNOWN_\<close>, the vendor and the product
  identifier in format \<^verbatim>\<open>04X\<close>, an underscore and the counter of that pair of
  identifiers in format \<^verbatim>\<open>04d\<close>, caches it and increments the counter, which starts at
  0. Two such devices of one model, called one after the other on a counter that has no
  entry for the model, get the indices 0000 and 0001.
\<close>

theorem get_serial_generated:
  assumes "serial_cached s = None" and "\<not> fullmatch_serial (read_serial reads 0 [])"
    and "serial_cached s' = None" and "\<not> fullmatch_serial (read_serial reads' 0 [])"
  shows "get_serial c reads counter s =
     (let idx = (case counter (USB_VID c, USB_PID c) of None \<Rightarrow> 0 | Some k \<Rightarrow> k);
          serial = ''UNKNOWN_'' @ format_04X (USB_VID c) @ format_04X (USB_PID c) @ ''_''
                     @ format_04d idx
      in (serial, counter((USB_VID c, USB_PID c) \<mapsto> idx + 1),
          s\<lparr>serial_cached := Some serial\<rparr>)) \<and>
   (counter (USB_VID c, USB_PID c) = None \<longrightarrow>
      fst (get_serial c reads counter s) =
        ''UNKNOWN_'' @ format_04X (USB_VID c) @ format_04X (USB_PID c) @ ''_0000'' \<and>
      fst (get_serial c reads' (fst (snd (get_serial c reads counter s))) s') =
        ''UNKNOWN_'' @ format_04X (USB_VID c) @ format_04X (USB_PID c) @ ''_0001'')"
proof (intro conjI impI)
  show "get_serial c reads counter s =
     (let idx = (case counter (USB_VID c, USB_PID c) of None \<Rightarrow> 0 | Some k \<Rightarrow> k);
          serial = ''UNKNOWN_'' @ format_04X (USB_VID c) @ format_04X (USB_PID c) @ ''_''
                     @ format_04d idx
      in (serial, counter((USB_VID c, USB_PID c) \<mapsto> idx + 1),
          s\<lparr>serial_cached := Some serial\<rparr>))"
    using assms(1,2) by (rule get_serial_fresh)
next
  assume none: "counter (USB_VID c, USB_PID c) = None"
  show "fst (get_serial c reads counter s) =
        ''UNKNOWN_'' @ format_04X (USB_VID c) @ format_04X (USB_PID c) @ ''_0000''"
    by (simp add: get_serial_fresh[OF assms(1,2)] none format_examples Let_def)
  show "fst (get_serial c reads' (fst (snd (get_serial c reads counter s))) s') =
        ''UNKNOWN_'' @ format_04X (USB_VID c) @ format_04X (USB_PID c) @ ''_0001''"
    by (simp add: get_serial_fresh[OF assms(1,2)] get_serial_fresh[OF assms(3,4)] none
        format_examples Let_def)
qed

lemma bad_serial_read: "read_serial bad_serial_file 0 [] = ''Default string''"
  by (simp add: read_serial.simps bad_serial_file_def strip_def is_space_def)

lemma no_serial_read: "read_serial no_serial_file 0 [] = []"
  by (simp add: read_serial.simps no_serial_file_def)

theorem get_serial_generated_witness:
  "fst (get_serial mouse_class bad_serial_file Map.empty new_device) = ''UNKNOWN_15320043_0000'' \<and>
   fst (get_serial mouse_class no_serial_file
          (fst (snd (get_serial mouse_class bad_serial_file Map.empty new_device))) new_device)
     = ''UNKNOWN_15320043_0001''"
proof -
  have c: "serial_cached new_device = None" by (simp add: new_device_def)
  have r: "\<not> fullmatch_serial (read_serial bad_serial_file 0 [])"
    by (simp add: bad_serial_read fullmatch_serial_def is_digit_def is_upper_AZ_def)
  have r': "\<not> fullmatch_serial (read_serial no_serial_file 0 [])"
    by (simp add: no_serial_read fullmatch_serial_def)
  have e: "Map.empty (USB_VID mouse_class, USB_PID mouse_class) = None" by simp
  have ids: "format_04X (USB_VID mouse_class) = ''1532''"
    "format_04X (USB_PID mouse_class) = ''0043''"
    by (simp_all add: mouse_class_def format_examples)
  show ?thesis
    using get_serial_generated[OF c r c r', of mouse_class Map.empty, THEN conjunct2,
        rule_format, OF e]
    by (simp add: ids)
qed

subsection \<open>Loading the colours\<close>

lemmas load_defs =
  load_colors_def py_int_def int_strip_def is_int_space_def int_digits_def is_digit_def
  digit_value_def
  new_zone_def default_colors_def

text \<open>
  The loop stores into the list the zone already has and never changes its length, so
  the test \<^verbatim>\<open>len(self.zone[i]["colors"]) != 9\<close> that follows it cannot fail on a list
  of nine.
\<close>

lemma colors_loop_length:
  "colors_loop index items cs = Inr cs' \<Longrightarrow> length cs' = length cs"
proof (induction index items cs rule: colors_loop.induct)
  case (1 index cs)
  then show ?case by simp
next
  case (2 index item items cs)
  from "2.prems" obtain v where v: "py_int item = Inr v" and lt: "index < length cs"
    and ok: "\<not> \<not> (0 \<le> v \<and> v \<le> 255)"
    and rest: "colors_loop (index + 1) items (cs[index := v]) = Inr cs'"
    by (auto simp: bind_Inr_iff split: if_splits)
  from "2.IH"[OF lt ok rest] show ?case by simp
qed

lemma load_colors_examples:
  "map_sum id colors (load_colors (Some ''1 2 3 4 5 6 7 8 9'') new_zone)
     = Inr [1, 2, 3, 4, 5, 6, 7, 8, 9]"
  "map_sum id colors (load_colors (Some ''1 2 3 4 5 6 7 8 256'') new_zone) = Inr default_colors"
  "map_sum id colors (load_colors (Some ''1 2 x'') new_zone) = Inr default_colors"
  "map_sum id colors (load_colors None new_zone) = Inr default_colors"
  by (simp_all add: load_defs)

text \<open>
  C2. Specified: a colours string that is not nine integers between 0 and 255 resets the
  zone's colours to the default palette, and the load never fails. The code on strings
  of the wrong length: the numbers of a string of three overwrite the first three
  defaults and the other six stay; a string of ten makes the store at index 9 raise
  IndexError, which neither handler catches, so the load fails.
\<close>

theorem load_colors_wrong_length:
  "map_sum id colors (load_colors (Some ''1 2 3'') new_zone)
     = Inr [1, 2, 3, 0, 255, 255, 0, 0, 255] \<and>
   load_colors (Some ''0 0 0 0 0 0 0 0 0 0'') new_zone = Inl IndexError"
  by (simp add: load_defs)

subsection \<open>DPI and poll rate after a change of the valid range\<close>






lemmas dpi_defs =
  restore_dpi_poll_rate_def restore_dpi_def restore_poll_rate_def constrain_dpi_def
  constrain_poll_rate_def py_min_def

text \<open>
  DPI (5000, 5000) with \<^verbatim>\<open>DPI_MAX = 1600\<close> and the poll rate 300 with the rates 125,
  500 and 1000: \<^verbatim>\<open>setDPI(1600, 1600)\<close>, then \<^verbatim>\<open>setPollRate(125)\<close>.
\<close>

lemma mouse_restore_dpi_poll_rate:
  "map_sum id (\<lambda>s. (calls s, dpi s, poll_rate s))
     (restore_dpi_poll_rate mouse_class (mouse\<lparr>dpi := (5000, 5000), poll_rate := 300\<rparr>))
   = Inr ([(''setDPI'', [PyInt 1600, PyInt 1600]), (''setPollRate'', [PyInt 125])],
          (1600, 1600), 125)"
  by (simp add: dpi_defs model_defs example_defs)


subsection \<open>Closing twice\<close>

lemma capture_dpi_frame:
  assumes "capture_dpi c s = Inr s1"
  shows "is_closed s1 = is_closed s \<and> observer_list s1 = observer_list s \<and>
         battery_manager s1 = battery_manager s \<and> device_mode_file s1 = device_mode_file s \<and>
         hw_dpi s1 = hw_dpi s \<and>
         (if ''get_dpi_xy'' \<in> set (METHODS c) \<and> attrs c ''getDPI'' \<noteq> None
          then dpi s1 = hw_dpi s \<and> calls s1 = calls s @ [(''getDPI'', [])]
          else s1 = s)"
proof (cases "''get_dpi_xy'' \<in> set (METHODS c) \<and> attrs c ''getDPI'' \<noteq> None")
  case True
  then obtain m where m: "attrs c ''getDPI'' = Some m" by auto
  with True assms obtain t where t: "invoke m ''getDPI'' [] s = Inr t" and s1: "s1 = t\<lparr>dpi := hw_dpi t\<rparr>"
    by (auto simp: capture_dpi_def bind_Inr_iff)
  from invoke_calls[OF t] s1 True show ?thesis by (simp add: untouched_def)
next
  case False
  with assms have "s1 = s" by (auto simp: capture_dpi_def split: if_splits option.splits)
  with False show ?thesis by simp
qed

lemma revert_mode_frame:
  assumes "revert_mode c s = Inr s2"
  shows "is_closed s2 = is_closed s \<and> observer_list s2 = observer_list s \<and>
         battery_manager s2 = battery_manager s \<and> dpi s2 = dpi s \<and> calls s2 = calls s \<and>
         (if DRIVER_MODE c \<and> device_mode_file s \<noteq> Absent
          then device_mode_file s2 = File [0, 0] else s2 = s)"
  using assms
  by (auto simp: revert_mode_def set_device_mode_def Let_def split: if_splits ctrl_file.splits)

lemma revert_mode_returns:
  "device_mode_file s \<noteq> Unwritable \<or> \<not> DRIVER_MODE c \<Longrightarrow> \<exists>s2. revert_mode c s = Inr s2"
  by (auto simp: revert_mode_def set_device_mode_def Let_def split: ctrl_file.splits)

text \<open>
  C8. \<^verbatim>\<open>close\<close> on a closed device returns the state as it is. A \<^verbatim>\<open>close\<close> that
  returns leaves the device closed, so that a second one changes nothing. The first one
  takes the DPI the hardware reports when the device has \<^verbatim>\<open>get_dpi_xy\<close> and
  \<^verbatim>\<open>getDPI\<close>, writes mode 0 to the control file in driver mode and goes on when that
  file is missing, clears the observer list and closes the battery manager. It returns
  whenever no DPI has to be read and the control file is not unwritable.
\<close>

theorem close_idempotent:
  "(is_closed s \<longrightarrow> close c s = Inr s) \<and>
   (close c s = Inr s' \<longrightarrow> is_closed s' \<and> close c s' = Inr s') \<and>
   (\<not> is_closed s \<and> close c s = Inr s' \<longrightarrow>
      observer_list s' = [] \<and>
      battery_manager s' = map_option (\<lambda>b. True) (battery_manager s) \<and>
      (''get_dpi_xy'' \<in> set (METHODS c) \<and> attrs c ''getDPI'' \<noteq> None \<longrightarrow>
         dpi s' = hw_dpi s \<and> calls s' = calls s @ [(''getDPI'', [])]) \<and>
      (DRIVER_MODE c \<and> device_mode_file s \<noteq> Absent \<longrightarrow> device_mode_file s' = File [0, 0]) \<and>
      (DRIVER_MODE c \<and> device_mode_file s = Absent \<longrightarrow> device_mode_file s' = Absent)) \<and>
   (\<not> is_closed s \<and> ''get_dpi_xy'' \<notin> set (METHODS c) \<and> device_mode_file s \<noteq> Unwritable \<longrightarrow>
      (\<exists>t. close c s = Inr t))"
proof -
  have closed: "is_closed s \<longrightarrow> close c s = Inr s"
    by (simp add: close_def)
  have again: "close c s = Inr s' \<longrightarrow> is_closed s' \<and> close c s' = Inr s'"
  proof
    assume r: "close c s = Inr s'"
    have "is_closed s'"
    proof (cases "is_closed s")
      case True
      with r show ?thesis by (simp add: close_def)
    next
      case False
      with r show ?thesis by (auto simp: close_def bind_Inr_iff)
    qed
    then show "is_closed s' \<and> close c s' = Inr s'" by (simp add: close_def)
  qed
  have first: "\<not> is_closed s \<and> close c s = Inr s' \<longrightarrow>
      observer_list s' = [] \<and>
      battery_manager s' = map_option (\<lambda>b. True) (battery_manager s) \<and>
      (''get_dpi_xy'' \<in> set (METHODS c) \<and> attrs c ''getDPI'' \<noteq> None \<longrightarrow>
         dpi s' = hw_dpi s \<and> calls s' = calls s @ [(''getDPI'', [])]) \<and>
      (DRIVER_MODE c \<and> device_mode_file s \<noteq> Absent \<longrightarrow> device_mode_file s' = File [0, 0]) \<and>
      (DRIVER_MODE c \<and> device_mode_file s = Absent \<longrightarrow> device_mode_file s' = Absent)"
  proof
    assume "\<not> is_closed s \<and> close c s = Inr s'"
    then obtain s1 s2 where a: "capture_dpi c s = Inr s1" and b: "revert_mode c s1 = Inr s2"
      and s': "s' = (close_hook s2)\<lparr>is_closed := True\<rparr>"
      by (auto simp: close_def bind_Inr_iff)
    note fa = capture_dpi_frame[OF a] and fb = revert_mode_frame[OF b]
    have 1: "observer_list s' = []" by (simp add: s' close_hook_def)
    have 2: "battery_manager s' = map_option (\<lambda>b. True) (battery_manager s)"
      using fa fb by (simp add: s' close_hook_def split: option.splits)
    have 3: "dpi s' = hw_dpi s \<and> calls s' = calls s @ [(''getDPI'', [])]"
      if "''get_dpi_xy'' \<in> set (METHODS c) \<and> attrs c ''getDPI'' \<noteq> None"
      using fa fb that by (simp add: s' close_hook_def)
    have 4: "device_mode_file s' = File [0, 0]"
      if "DRIVER_MODE c \<and> device_mode_file s \<noteq> Absent"
      using fa fb that by (simp add: s' close_hook_def)
    have 5: "device_mode_file s' = Absent" if "DRIVER_MODE c \<and> device_mode_file s = Absent"
      using fa fb that by (simp add: s' close_hook_def)
    from 1 2 3 4 5 show "observer_list s' = [] \<and>
      battery_manager s' = map_option (\<lambda>b. True) (battery_manager s) \<and>
      (''get_dpi_xy'' \<in> set (METHODS c) \<and> attrs c ''getDPI'' \<noteq> None \<longrightarrow>
         dpi s' = hw_dpi s \<and> calls s' = calls s @ [(''getDPI'', [])]) \<and>
      (DRIVER_MODE c \<and> device_mode_file s \<noteq> Absent \<longrightarrow> device_mode_file s' = File [0, 0]) \<and>
      (DRIVER_MODE c \<and> device_mode_file s = Absent \<longrightarrow> device_mode_file s' = Absent)"
      by blast
  qed
  have returns: "\<not> is_closed s \<and> ''get_dpi_xy'' \<notin> set (METHODS c) \<and>
      device_mode_file s \<noteq> Unwritable \<longrightarrow> (\<exists>t. close c s = Inr t)"
  proof
    assume h: "\<not> is_closed s \<and> ''get_dpi_xy'' \<notin> set (METHODS c) \<and>
      device_mode_file s \<noteq> Unwritable"
    then have a: "capture_dpi c s = Inr s" by (simp add: capture_dpi_def)
    from h revert_mode_returns[of s c] obtain s2 where "revert_mode c s = Inr s2" by blast
    with h a show "\<exists>t. close c s = Inr t" by (simp add: close_def)
  qed
  from closed again first returns show ?thesis by (intro conjI)
qed

lemmas close_defs =
  close_def capture_dpi_def revert_mode_def close_hook_def

lemma mouse_close:
  "close mouse_class (mouse\<lparr>hw_dpi := (800, 800), battery_manager := Some False\<rparr>) =
     Inr (mouse\<lparr>hw_dpi := (800, 800), dpi := (800, 800), calls := [(''getDPI'', [])],
                is_closed := True, observer_list := [], battery_manager := Some True\<rparr>)"
  by (simp add: close_defs model_defs example_defs)

lemma mouse_close_unplugged:
  "close mouse_class (mouse\<lparr>device_mode_file := Absent\<rparr>) =
     Inr (mouse\<lparr>device_mode_file := Absent, calls := [(''getDPI'', [])],
                is_closed := True, observer_list := []\<rparr>)"
  by (simp add: close_defs model_defs example_defs)


theorem close_idempotent_witness:
  "\<exists>s'. close mouse_class (mouse\<lparr>hw_dpi := (800, 800), battery_manager := Some False\<rparr>) = Inr s' \<and>
        is_closed s' \<and> close mouse_class s' = Inr s' \<and> observer_list s' = [] \<and>
        battery_manager s' = Some True \<and> dpi s' = (800, 800) \<and>
        calls s' = [(''getDPI'', [])] \<and> device_mode_file s' = File [0, 0]"
proof -
  let ?m = "mouse\<lparr>hw_dpi := (800, 800), battery_manager := Some False\<rparr>"
  let ?s = "mouse\<lparr>hw_dpi := (800, 800), dpi := (800, 800), calls := [(''getDPI'', [])],
                is_closed := True, observer_list := [], battery_manager := Some True\<rparr>"
  note t = close_idempotent[of ?m mouse_class ?s]
  have n: "\<not> is_closed ?m" by (simp add: example_defs)
  have g: "''get_dpi_xy'' \<in> set (METHODS mouse_class) \<and> attrs mouse_class ''getDPI'' \<noteq> None"
    by (simp add: mouse_class_def)
  have d: "DRIVER_MODE mouse_class \<and> device_mode_file ?m \<noteq> Absent"
    by (simp add: example_defs)
  from t mouse_close n g d
  have "is_closed ?s \<and> close mouse_class ?s = Inr ?s \<and> observer_list ?s = [] \<and>
        battery_manager ?s = map_option (\<lambda>b. True) (battery_manager ?m) \<and>
        dpi ?s = hw_dpi ?m \<and> calls ?s = calls ?m @ [(''getDPI'', [])] \<and>
        device_mode_file ?s = File [0, 0]"
    by blast
  moreover have "hw_dpi ?m = (800, 800) \<and> calls ?m = [] \<and> battery_manager ?m = Some False"
    by (simp add: example_defs)
  ultimately show ?thesis using mouse_close by (intro exI[of _ ?s]) simp
qed

subsection \<open>Suspend and resume return\<close>

text \<open>
  On a device whose zone dictionary is the one the constructor builds, with setters of
  one parameter, both transitions return; \<^verbatim>\<open>resume_device\<close> in driver mode needs the
  control file.
\<close>

lemma invoke_muted_returns:
  assumes "muted s" and "length args = arity m"
  shows "\<exists>s'. invoke m name args s = Inr s'"
proof -
  have "muted (s\<lparr>calls := calls s @ [(name, args)]\<rparr>)"
    using assms(1) by (simp add: muted_def)
  from run_script_muted[OF this] assms(2) show ?thesis by (simp add: invoke_def)
qed

lemma capitalize_first_char_returns: "i \<noteq> [] \<Longrightarrow> \<exists>z. capitalize_first_char i = Inr z"
  by (cases i) (simp_all add: capitalize_first_char_def)

lemma active_step_returns:
  assumes "muted s" and "zone s i = Some (Zone z)" and "i \<noteq> []" and "one_parameter c"
  shows "\<exists>s'. active_step c i arg s = Inr s'"
proof -
  from capitalize_first_char_returns[OF assms(3)] obtain ci where ci: "capitalize_first_char i = Inr ci"
    by blast
  show ?thesis
  proof (cases "attrs c (''set'' @ ci @ ''Active'')")
    case None
    with ci show ?thesis by (simp add: active_step_def)
  next
    case (Some m)
    with assms(4) ci have "arity m = 1" by (auto simp: one_parameter_def)
    with invoke_muted_returns[OF assms(1), of "[arg z]" m] Some ci assms(2) show ?thesis
      by (simp add: active_step_def zone_get_def)
  qed
qed

lemma bright_step_returns:
  assumes "muted s" and "zone s i = Some (Zone z)" and "i \<noteq> []" and "one_parameter c"
  shows "\<exists>s'. bright_step c i arg s = Inr s'"
proof -
  from capitalize_first_char_returns[OF assms(3)] obtain ci where ci: "capitalize_first_char i = Inr ci"
    by blast
  have call: "\<exists>s'. bind (zone_get s i) (\<lambda>r. invoke m fname [arg r] s) = Inr s'"
    if "arity m = 1" for m fname
    using invoke_muted_returns[OF assms(1), of "[arg z]" m fname] that assms(2)
    by (simp add: zone_get_def)
  have found: "\<exists>s'. (case attrs c fname of None \<Rightarrow> Inr s
          | Some bright_func \<Rightarrow> bind (zone_get s i) (\<lambda>r. invoke bright_func fname [arg r] s)) = Inr s'"
    if "\<forall>m. attrs c fname = Some m \<longrightarrow> arity m = 1" for fname
    using that call by (cases "attrs c fname") auto
  from assms(4) ci have a: "\<forall>m. attrs c ''setBrightness'' = Some m \<longrightarrow> arity m = 1"
    and b: "\<forall>m. attrs c (''set'' @ ci @ ''Brightness'') = Some m \<longrightarrow> arity m = 1"
    by (auto simp: one_parameter_def)
  show ?thesis
  proof (cases "i = ''backlight''")
    case True
    with found[OF a] show ?thesis
      by (auto simp: bright_step_def bright_func_name_def split: option.splits
          simp del: append.simps)
  next
    case False
    show ?thesis
    proof (cases "''set_'' @ i @ ''_brightness'' \<in> set (METHODS c)")
      case True
      with False ci found[OF b] show ?thesis
        by (auto simp: bright_step_def bright_func_name_def split: option.splits
            simp del: append.simps)
    next
      case no: False
      with False show ?thesis
        by (simp add: bright_step_def bright_func_name_def del: append.simps)
    qed
  qed
qed

lemma brightness_zone_returns:
  assumes "muted s" and "zone s i = Some (Zone z)" and "i \<noteq> []" and "one_parameter c"
  shows "\<exists>s'. brightness_zone c act bri i s = Inr s'"
proof (cases "present z")
  case False
  with assms(2) show ?thesis by (simp add: brightness_zone_def zone_get_def)
next
  case True
  from active_step_returns[OF assms] obtain s1 where a: "active_step c i act s = Inr s1" by blast
  from active_step_muted[OF assms(1) a] have oc: "only_calls s s1" .
  then have "muted s1" and "zone s1 i = Some (Zone z)"
    using assms(1,2) by (auto simp: only_calls_muted dest: only_calls_zone)
  from bright_step_returns[OF this assms(3,4)] obtain s' where "bright_step c i bri s1 = Inr s'"
    by blast
  with a True assms(2) show ?thesis by (simp add: brightness_zone_def zone_get_def)
qed

lemma for_each_brightness_returns:
  assumes "one_parameter c"
  shows "muted s \<Longrightarrow> \<forall>i\<in>set zs. i \<noteq> [] \<and> (\<exists>z. zone s i = Some (Zone z)) \<Longrightarrow>
         \<exists>s'. for_each (brightness_zone c act bri) zs s = Inr s'"
proof (induction zs arbitrary: s)
  case Nil
  then show ?case by simp
next
  case (Cons i zs)
  from Cons.prems obtain z where z: "zone s i = Some (Zone z)" and i: "i \<noteq> []" by auto
  from brightness_zone_returns[OF Cons.prems(1) z i assms] obtain s1 where
    a: "brightness_zone c act bri i s = Inr s1" by blast
  from brightness_zone_muted[OF Cons.prems(1) a] have oc: "only_calls s s1" .
  then have "muted s1" and "\<forall>i\<in>set zs. i \<noteq> [] \<and> (\<exists>z. zone s1 i = Some (Zone z))"
    using Cons.prems by (auto simp: only_calls_muted dest: only_calls_zone)
  from Cons.IH[OF this] a show ?case by simp
qed

lemma ZONES_nonempty: "\<forall>i\<in>set ZONES. i \<noteq> []"
  by (simp add: ZONES_def)

lemma suspend_device_returns:
  assumes "one_parameter c" and "\<forall>i\<in>set ZONES. \<exists>z. zone s i = Some (Zone z)"
  shows "\<exists>s'. suspend_device c s = Inr s'"
proof -
  let ?on = "s\<lparr>disable_notifications := True, disable_persistence := True\<rparr>"
  have "muted ?on" by (simp add: muted_def)
  moreover have "\<forall>i\<in>set ZONES. i \<noteq> [] \<and> (\<exists>z. zone ?on i = Some (Zone z))"
    using assms(2) ZONES_nonempty by simp
  ultimately obtain t where "disable_brightness c ?on = Inr t"
    unfolding disable_brightness_def using for_each_brightness_returns[OF assms(1)] by blast
  then show ?thesis by (simp add: suspend_device_def)
qed

lemma resume_device_returns:
  assumes "one_parameter c" and "\<forall>i\<in>set ZONES. \<exists>z. zone s i = Some (Zone z)"
    and "DRIVER_MODE c \<longrightarrow> (\<exists>bs. device_mode_file s = File bs)"
  shows "\<exists>s'. resume_device c s = Inr s'"
proof -
  let ?on = "s\<lparr>disable_notifications := True, disable_persistence := True\<rparr>"
  have "\<exists>u. (if DRIVER_MODE c then set_device_mode 3 0 ?on else Inr ?on) = Inr u"
    using assms(3) by (auto simp: set_device_mode_def Let_def)
  then obtain u where u: "(if DRIVER_MODE c then set_device_mode 3 0 ?on else Inr ?on) = Inr u"
    by blast
  then have "zone u = zone s \<and> muted u"
    by (auto simp: muted_def split: if_splits dest: set_device_mode_zone)
  then have "muted u" and "\<forall>i\<in>set ZONES. i \<noteq> [] \<and> (\<exists>z. zone u i = Some (Zone z))"
    using assms(2) ZONES_nonempty by simp_all
  then obtain t where "restore_brightness c u = Inr t"
    unfolding restore_brightness_def using for_each_brightness_returns[OF assms(1)] by blast
  with u show ?thesis by (simp add: resume_device_def)
qed

subsection \<open>Names, integers and observers\<close>

lemma effect_func_name_returns:
  "i \<noteq> [] \<Longrightarrow> eff \<noteq> [] \<Longrightarrow> \<exists>fname. effect_func_name i eff = Inr fname"
  by (cases i; cases eff) (simp_all add: effect_func_name_def capitalize_first_char_def)

lemma upper_examples:
  "upper CHR ''w'' = ''W''" "upper CHR ''W'' = ''W''" "upper CHR ''_'' = ''_''"
  "upper CHR 0xE9 = [CHR 0xC9]" "upper CHR 0xDF = ''SS''" "upper CHR 0xF7 = [CHR 0xF7]"
  by (simp_all add: upper_def)

lemma py_int_examples:
  "py_int '' 12'' = Inr 12" "py_int ''-0'' = Inr 0" "py_int ''1_0'' = Inr 10"
  "py_int ''1__0'' = Inl ValueError" "py_int ''+ 5'' = Inl ValueError"
  "py_int [CHR 0x1C, CHR ''5''] = Inl ValueError" "py_int [CHR 0x85, CHR ''5''] = Inr 5"
  "py_int [] = Inl ValueError"
  by (simp_all add: py_int_def int_strip_def is_int_space_def int_digits_def is_digit_def
      digit_value_def)

lemma int_digits_limit: "4300 < length (filter is_digit ds) \<Longrightarrow> int_digits ds = None"
  by (simp add: int_digits_def)

lemma register_observer_order:
  "observer_list (register_observer 2 (register_observer 1 (register_observer 2
     (register_observer 1 (s\<lparr>observer_list := []\<rparr>))))) = [1, 2]"
  by (simp add: register_observer_def)

lemma remove_observer_absent:
  "observer \<notin> set (observer_list s) \<Longrightarrow> remove_observer observer s = s"
  by (simp add: remove_observer_def remove1_idem)

end
